theory Spec2Isabelle
  imports Main "HOL-Library.Sublist"
begin

section \<open>Python string primitives used by the scripts\<close>

text \<open>
  A Python \<open>str\<close> is modelled as a \<open>string\<close> (a list of 8-bit characters, read as the
  code points below 256). The four string methods the scripts call are written out:
  \<open>str.replace\<close>, \<open>str.split\<close> with a one-character separator, \<open>str.strip\<close> without
  arguments and \<open>str.startswith\<close> (which is \<open>prefix\<close>).
\<close>

text \<open>
  \<open>s.replace(old, new)\<close>: the non-overlapping occurrences of \<open>old\<close> are replaced from
  left to right. With an empty \<open>old\<close>, Python inserts \<open>new\<close> before every character and
  at the end.
\<close>

function replace :: "string \<Rightarrow> string \<Rightarrow> string \<Rightarrow> string" where
  "replace old new [] = (if old = [] then new else [])"
| "replace old new (c # cs) =
     (if old = [] then new @ c # replace old new cs
      else if prefix old (c # cs) then new @ replace old new (drop (length old) (c # cs))
      else c # replace old new cs)"
  by pat_completeness auto
termination
  by (relation "measure (\<lambda>(old, new, s). length s)") auto

text \<open>
  \<open>s.split(sep)\<close> for a separator of one character: the fragments between the
  occurrences of \<open>sep\<close>, empty ones included; the result is never the empty list.
\<close>

fun split_on :: "char \<Rightarrow> string \<Rightarrow> string list" where
  "split_on sep [] = [[]]"
| "split_on sep (c # cs) =
     (if c = sep then [] # split_on sep cs
      else (case split_on sep cs of
              [] \<Rightarrow> [[c]]
            | w # ws \<Rightarrow> (c # w) # ws))"

text \<open>
  \<open>str.isspace\<close> on one character, for the code points below 256: tab, line feed,
  vertical tab, form feed, carriage return, the four separators 0x1C to 0x1F, space,
  next line (0x85) and no-break space (0xA0).
\<close>

definition isspace :: "char \<Rightarrow> bool" where
  "isspace c = (c \<in> set [CHR 0x09, CHR 0x0A, CHR 0x0B, CHR 0x0C, CHR 0x0D,
                          CHR 0x1C, CHR 0x1D, CHR 0x1E, CHR 0x1F, CHR 0x20,
                          CHR 0x85, CHR 0xA0])"

text \<open>\<open>s.strip()\<close>: leading and trailing whitespace removed.\<close>

definition strip :: "string \<Rightarrow> string" where
  "strip s = rev (dropWhile isspace (rev (dropWhile isspace s)))"

section \<open>Configuration\<close>

text \<open>
  The configuration is the dictionary \<open>yaml.safe_load\<close> returns: a flat mapping of named
  settings, whose values are taken to be strings (they are interpolated into identifiers
  and passed to \<open>str.replace\<close>). \<open>config[k]\<close> raises \<open>KeyError\<close> on a missing key.
\<close>

datatype exn =
    KeyError string
  | TypeError
  | AttributeError
  | FileNotFoundError string
  | JSONDecodeError
  | ImportError
  | OtherError string

type_synonym config = "string \<rightharpoonup> string"

definition lookup :: "config \<Rightarrow> string \<Rightarrow> exn + string" where
  "lookup cfg k = (case cfg k of None \<Rightarrow> Inl (KeyError k) | Some v \<Rightarrow> Inr v)"

section \<open>Transformation runner: parameter substitution and statement splitting\<close>

text \<open>
  \<open>substitute_parameters\<close> (run_transformations.py): the dictionary \<open>replacements\<close> is
  built from three config lookups, in this order, and the loop runs over its items in
  insertion order, each step replacing in the text the previous step produced.
\<close>

definition substitute_parameters :: "string \<Rightarrow> config \<Rightarrow> exn + string" where
  "substitute_parameters sql_content cfg =
     (case lookup cfg ''gcp_project_id'' of Inl e \<Rightarrow> Inl e | Inr p \<Rightarrow>
     (case lookup cfg ''dataset_id'' of Inl e \<Rightarrow> Inl e | Inr d \<Rightarrow>
     (case lookup cfg ''table_id'' of Inl e \<Rightarrow> Inl e | Inr t \<Rightarrow>
        Inr (fold (\<lambda>(placeholder, v) s. replace placeholder v s)
               [(''{project_id}'', p), (''{dataset_id}'', d), (''{table_id}'', t)]
               sql_content))))"

text \<open>
  The statement list of \<open>run_sql_file\<close>:
  \<^verbatim>\<open>statements = [s.strip() for s in sql_content.split(';') if s.strip()]\<close>
\<close>

definition split_statements :: "string \<Rightarrow> string list" where
  "split_statements sql_content =
     [strip s. s \<leftarrow> split_on CHR '';'' sql_content, strip s \<noteq> []]"

text \<open>\<open>str(n)\<close> for a non-negative integer, as the f-strings print it.\<close>

function str_nat :: "nat \<Rightarrow> string" where
  "str_nat n =
     (if n < 10 then [char_of (48 + n)]
      else str_nat (n div 10) @ [char_of (48 + n mod 10)])"
  by pat_completeness auto
termination
  by (relation "measure id") auto

declare str_nat.simps [simp del]

text \<open>
  \<open>os.path.join\<close> (posixpath): a component that starts with the separator replaces
  the path built so far; otherwise it is appended, with a separator unless the path is
  empty or already ends with one.
\<close>

definition join2 :: "string \<Rightarrow> string \<Rightarrow> string" where
  "join2 path b =
     (if prefix ''/'' b then b
      else if path = [] \<or> suffix ''/'' path then path @ b
      else path @ ''/'' @ b)"

definition path_join :: "string \<Rightarrow> string list \<Rightarrow> string" where
  "path_join a p = foldl join2 a p"

section \<open>Parsed JSON documents\<close>

text \<open>
  The value \<open>json.loads\<close> returns: \<open>None\<close>, a bool, an int, a str, a list or a dict (an
  association list with distinct keys, in document order). Floating-point numbers are
  left out. Subscripting with a string key, \<open>dict.get\<close> and iteration follow Python:
  only a dict can be subscripted by a string or has \<open>get\<close>; iterating a dict yields its
  keys and iterating a str its characters.
\<close>

datatype json =
    JNull
  | JBool bool
  | JInt int
  | JStr string
  | JArr "json list"
  | JObj "(string \<times> json) list"

definition subscript :: "json \<Rightarrow> string \<Rightarrow> exn + json" where
  "subscript v k =
     (case v of
        JObj kvs \<Rightarrow> (case map_of kvs k of None \<Rightarrow> Inl (KeyError k) | Some x \<Rightarrow> Inr x)
      | _ \<Rightarrow> Inl TypeError)"

definition dict_get :: "json \<Rightarrow> string \<Rightarrow> json \<Rightarrow> exn + json" where
  "dict_get v k dflt =
     (case v of
        JObj kvs \<Rightarrow> (case map_of kvs k of None \<Rightarrow> Inr dflt | Some x \<Rightarrow> Inr x)
      | _ \<Rightarrow> Inl AttributeError)"

definition iterate :: "json \<Rightarrow> exn + json list" where
  "iterate v =
     (case v of
        JArr xs \<Rightarrow> Inr xs
      | JObj kvs \<Rightarrow> Inr (map (\<lambda>kv. JStr (fst kv)) kvs)
      | JStr s \<Rightarrow> Inr (map (\<lambda>c. JStr [c]) s)
      | _ \<Rightarrow> Inl TypeError)"

section \<open>The world outside the scripts\<close>

text \<open>
  What the client library hands back. \<open>bigquery.Dataset(dataset_id)\<close> followed by the
  attribute assignments, and \<open>bigquery.SchemaField(...)\<close>, are record constructions
  (the library's own validation of their arguments is not modelled). A query job carries
  the metrics the scripts print, and its result rows: each row is the text its
  \<open>print\<close> produces, or the exception raised while fetching or formatting it.
\<close>

record client =
  client_credentials :: "json option"
  client_project :: string

record dataset =
  ds_id :: string
  ds_location :: "string option"
  ds_description :: "string option"

record schema_field =
  sf_name :: json
  sf_field_type :: json
  sf_mode :: json
  sf_description :: json

record query_job =
  total_bytes_processed :: "nat option"
  num_dml_affected_rows :: "nat option"
  result_rows :: "(exn + string) list"

record table =
  num_rows :: nat
  num_bytes :: nat

text \<open>
  The environment of a run: the environment variables, the files (path to content; a
  missing path is a missing file), the directory of the scripts
  (\<open>os.path.dirname(__file__)\<close>), the installed packages, the two parsers and the
  warehouse. The warehouse has a state of an arbitrary type \<open>'r\<close>; every request
  takes the client and the state and returns an exception or a value, and the next
  state, so the outcome of a request may depend on everything done before. The
  exceptions modelled are the subclasses of \<open>Exception\<close>.
\<close>

record 'r world =
  environ :: "string \<rightharpoonup> string"
  files :: "string \<rightharpoonup> string"
  script_dir :: string
  installed :: "string \<Rightarrow> bool"
  yaml_safe_load :: "string \<Rightarrow> exn + config"
  json_loads :: "string \<Rightarrow> exn + json"
  from_service_account_info :: "json \<Rightarrow> exn + json"
  new_client :: "json option \<Rightarrow> string \<Rightarrow> exn + client"
  query :: "client \<Rightarrow> string \<Rightarrow> 'r \<Rightarrow> (exn + query_job) \<times> 'r"
  get_table :: "client \<Rightarrow> string \<Rightarrow> 'r \<Rightarrow> (exn + table) \<times> 'r"
  get_dataset :: "client \<Rightarrow> string \<Rightarrow> 'r \<Rightarrow> (exn + dataset) \<times> 'r"
  create_dataset :: "client \<Rightarrow> dataset \<Rightarrow> 'r \<Rightarrow> (exn + dataset) \<times> 'r"
  list_datasets :: "client \<Rightarrow> 'r \<Rightarrow> (exn + string list) \<times> 'r"

text \<open>The requests a run issues, in order: the client construction and the API calls.\<close>

datatype api_call =
    CallNewClient "json option" string
  | CallQuery string
  | CallGetTable string
  | CallGetDataset string
  | CallCreateDataset dataset
  | CallListDatasets

text \<open>
  The console: one constructor for each \<open>print\<close> (or run of consecutive prints) of the
  scripts, carrying the values it interpolates. Rules of equals signs, emoji and the
  fixed help texts are part of the constructor they belong to.
\<close>

datatype msg =
    LoadingConfigFrom string
  | AuthServiceAccount
  | AuthLocal
  | Executing string
  | QueryPreview string
  | QueryFull string
  | QuerySuccess nat
  | AffectedRows nat
  | ErrorExecuting exn
  | Processing string
  | FileNotFound string
  | FoundStatements nat
  | StatementError nat exn
  | VerifyingTransformations
  | TableExists nat
  | TableNotFound
  | DepartmentSummaryResults
  | ResultRow string
  | CouldNotVerify exn
  | StartingTransformations
  | LoadingConfiguration
  | ProjectIs string
  | DatasetIs string
  | WaitingForBigQuery
  | AllTransformationsCompleted
  | DatasetAlreadyExists string
  | CreatingDataset string
  | DatasetCreated string
  | DiagnosticTool
  | Step1CheckingEnvironment
  | EnvNotSet
  | EnvSet nat
  | ValidJSON
  | CredProjectId json
  | CredClientEmail json
  | InvalidJSON exn
  | Step2TestingConnection
  | LibraryImported
  | CannotImport exn
  | ConfigLoaded
  | CannotLoadConfig exn
  | ClientCreated
  | CannotCreateClient exn
  | CanAccessAPI
  | FoundDatasets nat
  | DatasetListed string
  | CannotAccessAPI exn
  | TargetDatasetExists string
  | TargetDatasetMissing string
  | AllTestsPassed
  | TestsFailed

text \<open>
  The state a run threads: the warehouse, the console output so far and the requests
  issued so far.
\<close>

record 'r st =
  remote :: 'r
  out :: "msg list"
  calls :: "api_call list"

definition print :: "msg list \<Rightarrow> 'r st \<Rightarrow> 'r st" where
  "print ms s = s\<lparr>out := out s @ ms\<rparr>"

text \<open>One request to the warehouse: the state moves on and the request is recorded.\<close>

definition request ::
  "('r \<Rightarrow> 'a \<times> 'r) \<Rightarrow> api_call \<Rightarrow> 'r st \<Rightarrow> 'a \<times> 'r st" where
  "request f c s =
     (case f (remote s) of
        (r, rem') \<Rightarrow> (r, s\<lparr>remote := rem', calls := calls s @ [c]\<rparr>))"

text \<open>
  \<open>os.environ.get(k)\<close> used as a condition: \<open>None\<close> and the empty string are both
  false.
\<close>

definition truthy_env :: "'r world \<Rightarrow> string \<Rightarrow> string option" where
  "truthy_env w k =
     (case environ w k of
        None \<Rightarrow> None
      | Some v \<Rightarrow> if v = [] then None else Some v)"

section \<open>run_transformations.py\<close>

text \<open>
  \<open>load_config\<close>: the file name comes from \<open>CONFIG_FILE\<close>, with \<open>config.yaml\<close> as
  the default; a missing file and a parse error propagate.
\<close>

definition load_config_rt :: "'r world \<Rightarrow> 'r st \<Rightarrow> (exn + config) \<times> 'r st" where
  "load_config_rt w s =
     (let config_file = (case environ w ''CONFIG_FILE'' of
                           None \<Rightarrow> ''config.yaml''
                         | Some f \<Rightarrow> f);
          config_path = path_join (script_dir w) [''..'', ''config'', config_file];
          s1 = print [LoadingConfigFrom config_file] s
      in case files w config_path of
           None \<Rightarrow> (Inl (FileNotFoundError config_path), s1)
         | Some text \<Rightarrow> (yaml_safe_load w text, s1))"

text \<open>
  \<open>get_bigquery_client\<close>: explicit credentials from \<open>GCP_SERVICE_ACCOUNT_KEY\<close> when it
  is set and not empty, ambient credentials otherwise.
\<close>

definition get_bigquery_client_rt ::
  "'r world \<Rightarrow> config \<Rightarrow> 'r st \<Rightarrow> (exn + client) \<times> 'r st" where
  "get_bigquery_client_rt w cfg s =
     (case truthy_env w ''GCP_SERVICE_ACCOUNT_KEY'' of
        Some gcp_credentials \<Rightarrow>
          (let s1 = print [AuthServiceAccount] s in
           (case json_loads w gcp_credentials of
              Inl e \<Rightarrow> (Inl e, s1)
            | Inr credentials_info \<Rightarrow>
           (case from_service_account_info w credentials_info of
              Inl e \<Rightarrow> (Inl e, s1)
            | Inr credentials \<Rightarrow>
           (case lookup cfg ''gcp_project_id'' of
              Inl e \<Rightarrow> (Inl e, s1)
            | Inr project \<Rightarrow>
                (new_client w (Some credentials) project,
                 s1\<lparr>calls := calls s1 @ [CallNewClient (Some credentials) project]\<rparr>)))))
      | None \<Rightarrow>
          (let s1 = print [AuthLocal] s in
           (case lookup cfg ''gcp_project_id'' of
              Inl e \<Rightarrow> (Inl e, s1)
            | Inr project \<Rightarrow>
                (new_client w None project,
                 s1\<lparr>calls := calls s1 @ [CallNewClient None project]\<rparr>))))"

text \<open>
  \<open>execute_sql\<close>: \<open>client.query\<close> and \<open>query_job.result()\<close> are one request. Whatever
  is raised inside the \<open>try\<close> is printed and raised again; that includes the
  \<open>TypeError\<close> of dividing a missing \<open>total_bytes_processed\<close>.
\<close>

definition execute_sql ::
  "'r world \<Rightarrow> client \<Rightarrow> string \<Rightarrow> string \<Rightarrow> 'r st \<Rightarrow> (exn + query_job) \<times> 'r st" where
  "execute_sql w cl sql_query description s =
     (let s1 = print [Executing description,
                      if length sql_query > 100 then QueryPreview (take 100 sql_query)
                      else QueryFull sql_query] s
      in case request (query w cl sql_query) (CallQuery sql_query) s1 of
           (Inl e, s2) \<Rightarrow> (Inl e, print [ErrorExecuting e] s2)
         | (Inr query_job, s2) \<Rightarrow>
             (case total_bytes_processed query_job of
                None \<Rightarrow> (Inl TypeError, print [ErrorExecuting TypeError] s2)
              | Some b \<Rightarrow>
                  (let s3 = print [QuerySuccess b] s2 in
                   (case num_dml_affected_rows query_job of
                      None \<Rightarrow> (Inr query_job, s3)
                    | Some n \<Rightarrow> (Inr query_job, print [AffectedRows n] s3)))))"

text \<open>
  The loop of \<open>run_sql_file\<close> over \<open>enumerate(statements, 1)\<close>; \<open>n\<close> is
  \<open>len(statements)\<close>. A statement that starts with two dashes (or is empty) is skipped.
  An exception of \<open>execute_sql\<close> is caught and printed, and the loop goes on. The
  one-second sleep after a statement changes nothing in the state.
\<close>

fun run_statements ::
  "'r world \<Rightarrow> client \<Rightarrow> string \<Rightarrow> nat \<Rightarrow> (nat \<times> string) list \<Rightarrow> 'r st \<Rightarrow> 'r st" where
  "run_statements w cl description n [] s = s"
| "run_statements w cl description n ((i, statement) # rest) s =
     (if prefix ''--'' statement \<or> statement = [] then
        run_statements w cl description n rest s
      else
        (case execute_sql w cl statement
                (description @ '' - Statement '' @ str_nat i @ ''/'' @ str_nat n) s of
           (Inr job, s1) \<Rightarrow> run_statements w cl description n rest s1
         | (Inl e, s1) \<Rightarrow>
             run_statements w cl description n rest (print [StatementError i e] s1)))"

definition enumerate1 :: "'a list \<Rightarrow> (nat \<times> 'a) list" where
  "enumerate1 xs = zip [1..<Suc (length xs)] xs"

definition run_sql_file ::
  "'r world \<Rightarrow> client \<Rightarrow> config \<Rightarrow> string \<Rightarrow> string \<Rightarrow> 'r st \<Rightarrow> (exn + unit) \<times> 'r st" where
  "run_sql_file w cl cfg sql_filename description s =
     (let s1 = print [Processing sql_filename] s;
          sql_path = path_join (script_dir w) [''..'', ''sql'', sql_filename]
      in case files w sql_path of
           None \<Rightarrow> (Inr (), print [FileNotFound sql_path] s1)
         | Some sql_content \<Rightarrow>
             (case substitute_parameters sql_content cfg of
                Inl e \<Rightarrow> (Inl e, s1)
              | Inr sql_content' \<Rightarrow>
                  (let statements = split_statements sql_content';
                       s2 = print [FoundStatements (length statements)] s1
                   in (Inr (),
                       run_statements w cl description (length statements)
                         (enumerate1 statements) s2))))"

text \<open>The rows of the verification query, printed until one of them raises.\<close>

fun print_rows :: "(exn + string) list \<Rightarrow> 'r st \<Rightarrow> (exn + unit) \<times> 'r st" where
  "print_rows [] s = (Inr (), s)"
| "print_rows (Inl e # rest) s = (Inl e, s)"
| "print_rows (Inr line # rest) s = print_rows rest (print [ResultRow line] s)"

definition verify_query :: "string \<Rightarrow> string \<Rightarrow> string" where
  "verify_query project ds =
     [CHR 0x0A] @ ''    SELECT '' @ [CHR 0x0A] @
     ''        department,'' @ [CHR 0x0A] @
     ''        employee_count,'' @ [CHR 0x0A] @
     ''        avg_salary,'' @ [CHR 0x0A] @
     ''        total_salary'' @ [CHR 0x0A] @
     ''    FROM '' @ [CHR 0x0A] @
     ''        `'' @ project @ ''.'' @ ds @ ''.department_summary`'' @ [CHR 0x0A] @
     ''    ORDER BY '' @ [CHR 0x0A] @
     ''        total_salary DESC'' @ [CHR 0x0A] @
     ''    ''"

text \<open>
  \<open>verify_transformations\<close>: only the two config lookups can raise; a failing table
  lookup, query or row is printed and the function returns.
\<close>

definition verify_transformations ::
  "'r world \<Rightarrow> client \<Rightarrow> config \<Rightarrow> 'r st \<Rightarrow> (exn + unit) \<times> 'r st" where
  "verify_transformations w cl cfg s =
     (let s1 = print [VerifyingTransformations] s in
      (case lookup cfg ''gcp_project_id'' of
         Inl e \<Rightarrow> (Inl e, s1)
       | Inr project \<Rightarrow>
      (case lookup cfg ''dataset_id'' of
         Inl e \<Rightarrow> (Inl e, s1)
       | Inr ds \<Rightarrow>
           (let table_id = project @ ''.'' @ ds @ ''.department_summary'' in
            (case request (get_table w cl table_id) (CallGetTable table_id) s1 of
               (Inl e, s2) \<Rightarrow> (Inr (), print [TableNotFound] s2)
             | (Inr tbl, s2) \<Rightarrow>
                 (let s3 = print [TableExists (num_rows tbl), DepartmentSummaryResults] s2 in
                  (case execute_sql w cl (verify_query project ds) ''Verification query'' s3 of
                     (Inl e, s4) \<Rightarrow> (Inr (), print [CouldNotVerify e] s4)
                   | (Inr job, s4) \<Rightarrow>
                       (case print_rows (result_rows job) s4 of
                          (Inl e, s5) \<Rightarrow> (Inr (), print [CouldNotVerify e] s5)
                        | (Inr u, s5) \<Rightarrow> (Inr (), s5)))))))))"

text \<open>
  \<open>main\<close>: every step before the final print block may raise, and then \<open>main\<close> raises;
  once the block is reached the value is 0. The three-second sleep changes nothing in
  the state.
\<close>

definition main_rt :: "'r world \<Rightarrow> 'r st \<Rightarrow> (exn + int) \<times> 'r st" where
  "main_rt w s =
     (case load_config_rt w (print [StartingTransformations, LoadingConfiguration] s) of
        (Inl e, s1) \<Rightarrow> (Inl e, s1)
      | (Inr cfg, s1) \<Rightarrow>
     (case lookup cfg ''gcp_project_id'' of
        Inl e \<Rightarrow> (Inl e, s1)
      | Inr project \<Rightarrow>
     (case lookup cfg ''dataset_id'' of
        Inl e \<Rightarrow> (Inl e, print [ProjectIs project] s1)
      | Inr ds \<Rightarrow>
     (case get_bigquery_client_rt w cfg (print [ProjectIs project, DatasetIs ds] s1) of
        (Inl e, s2) \<Rightarrow> (Inl e, s2)
      | (Inr cl, s2) \<Rightarrow>
     (case run_sql_file w cl cfg ''transformations.sql'' ''Data transformations'' s2 of
        (Inl e, s3) \<Rightarrow> (Inl e, s3)
      | (Inr u, s3) \<Rightarrow>
     (case verify_transformations w cl cfg (print [WaitingForBigQuery] s3) of
        (Inl e, s4) \<Rightarrow> (Inl e, s4)
      | (Inr u', s4) \<Rightarrow> (Inr 0, print [AllTransformationsCompleted] s4)))))))"

text \<open>
  The exit status of \<open>exit(main())\<close>: the value \<open>main\<close> returns, or 1 when an exception
  leaves it.
\<close>

definition exit_status :: "exn + int \<Rightarrow> int" where
  "exit_status r = (case r of Inl e \<Rightarrow> 1 | Inr n \<Rightarrow> n)"

section \<open>load_data.py\<close>

text \<open>\<open>load_config\<close> of the data loader: the path is fixed.\<close>

definition load_config_ld :: "'r world \<Rightarrow> exn + config" where
  "load_config_ld w =
     (let config_path = path_join (script_dir w) [''..'', ''config'', ''config.yaml'']
      in case files w config_path of
           None \<Rightarrow> Inl (FileNotFoundError config_path)
         | Some text \<Rightarrow> yaml_safe_load w text)"

text \<open>
  \<open>create_dataset_if_not_exists\<close>: any exception of \<open>get_dataset\<close> leads to the
  creation; what the handler raises (a missing \<open>location\<close>, a failing creation)
  propagates.
\<close>

definition create_dataset_if_not_exists ::
  "'r world \<Rightarrow> client \<Rightarrow> config \<Rightarrow> 'r st \<Rightarrow> (exn + unit) \<times> 'r st" where
  "create_dataset_if_not_exists w cl cfg s =
     (case lookup cfg ''gcp_project_id'' of
        Inl e \<Rightarrow> (Inl e, s)
      | Inr project \<Rightarrow>
     (case lookup cfg ''dataset_id'' of
        Inl e \<Rightarrow> (Inl e, s)
      | Inr ds \<Rightarrow>
          (let dataset_id = project @ ''.'' @ ds in
           (case request (get_dataset w cl dataset_id) (CallGetDataset dataset_id) s of
              (Inr found, s1) \<Rightarrow> (Inr (), print [DatasetAlreadyExists dataset_id] s1)
            | (Inl e, s1) \<Rightarrow>
                (let s2 = print [CreatingDataset dataset_id] s1 in
                 (case lookup cfg ''location'' of
                    Inl e' \<Rightarrow> (Inl e', s2)
                  | Inr loc \<Rightarrow>
                      (let dataset = \<lparr>ds_id = dataset_id, ds_location = Some loc,
                             ds_description = Some ''Dataset created by CI/CD pipeline''\<rparr>
                       in (case request (create_dataset w cl dataset)
                                  (CallCreateDataset dataset) s2 of
                             (Inl e', s3) \<Rightarrow> (Inl e', s3)
                           | (Inr created, s3) \<Rightarrow>
                               (Inr (), print [DatasetCreated dataset_id] s3)))))))))"

text \<open>
  \<open>load_table_schema\<close>: one \<open>SchemaField\<close> for each element of the parsed document, in
  order; the first element that cannot be converted raises.
\<close>

definition schema_field_of :: "json \<Rightarrow> exn + schema_field" where
  "schema_field_of field =
     (case subscript field ''name'' of Inl e \<Rightarrow> Inl e | Inr n \<Rightarrow>
     (case subscript field ''type'' of Inl e \<Rightarrow> Inl e | Inr ty \<Rightarrow>
     (case dict_get field ''mode'' (JStr ''NULLABLE'') of Inl e \<Rightarrow> Inl e | Inr m \<Rightarrow>
     (case dict_get field ''description'' (JStr '''') of Inl e \<Rightarrow> Inl e | Inr dsc \<Rightarrow>
        Inr \<lparr>sf_name = n, sf_field_type = ty, sf_mode = m, sf_description = dsc\<rparr>))))"

fun schema_fields :: "json list \<Rightarrow> exn + schema_field list" where
  "schema_fields [] = Inr []"
| "schema_fields (field # rest) =
     (case schema_field_of field of
        Inl e \<Rightarrow> Inl e
      | Inr f \<Rightarrow> (case schema_fields rest of Inl e \<Rightarrow> Inl e | Inr fs \<Rightarrow> Inr (f # fs)))"

definition load_table_schema :: "'r world \<Rightarrow> string \<Rightarrow> exn + schema_field list" where
  "load_table_schema w schema_file =
     (let schema_path = path_join (script_dir w) [''..'', ''data'', ''schemas'', schema_file]
      in case files w schema_path of
           None \<Rightarrow> Inl (FileNotFoundError schema_path)
         | Some text \<Rightarrow>
             (case json_loads w text of
                Inl e \<Rightarrow> Inl e
              | Inr schema_json \<Rightarrow>
                  (case iterate schema_json of
                     Inl e \<Rightarrow> Inl e
                   | Inr entries \<Rightarrow> schema_fields entries)))"

section \<open>test_connection.py\<close>

text \<open>
  \<open>test_environment\<close>: only \<open>json.JSONDecodeError\<close> is caught; a credential document
  that parses to something other than a dict makes \<open>creds.get\<close> raise
  \<open>AttributeError\<close>, which leaves the function.
\<close>

definition test_environment :: "'r world \<Rightarrow> 'r st \<Rightarrow> (exn + bool) \<times> 'r st" where
  "test_environment w s =
     (let s1 = print [Step1CheckingEnvironment] s in
      (case truthy_env w ''GCP_SERVICE_ACCOUNT_KEY'' of
         None \<Rightarrow> (Inr False, print [EnvNotSet] s1)
       | Some key \<Rightarrow>
           (let s2 = print [EnvSet (length key)] s1 in
            (case json_loads w key of
               Inl e \<Rightarrow>
                 (if e = JSONDecodeError then (Inr False, print [InvalidJSON e] s2)
                  else (Inl e, s2))
             | Inr creds \<Rightarrow>
                 (let s3 = print [ValidJSON] s2 in
                  (case dict_get creds ''project_id'' (JStr ''NOT FOUND'') of
                     Inl e \<Rightarrow> (Inl e, s3)
                   | Inr pid \<Rightarrow>
                  (case dict_get creds ''client_email'' (JStr ''NOT FOUND'') of
                     Inl e \<Rightarrow> (Inl e, print [CredProjectId pid] s3)
                   | Inr email \<Rightarrow>
                       (Inr True, print [CredProjectId pid, CredClientEmail email] s3))))))))"

text \<open>
  The second \<open>try\<close> of \<open>test_bigquery_connection\<close>: import yaml, read and parse
  \<open>config/config.yaml\<close> (relative to the working directory), print two of its keys.
\<close>

definition load_config_tc :: "'r world \<Rightarrow> 'r st \<Rightarrow> (exn + config) \<times> 'r st" where
  "load_config_tc w s =
     (if \<not> installed w ''yaml'' then (Inl ImportError, s)
      else
        (case files w ''config/config.yaml'' of
           None \<Rightarrow> (Inl (FileNotFoundError ''config/config.yaml''), s)
         | Some text \<Rightarrow>
        (case yaml_safe_load w text of
           Inl e \<Rightarrow> (Inl e, s)
         | Inr cfg \<Rightarrow>
             (let s1 = print [ConfigLoaded] s in
              (case lookup cfg ''gcp_project_id'' of
                 Inl e \<Rightarrow> (Inl e, s1)
               | Inr project \<Rightarrow>
              (case lookup cfg ''dataset_id'' of
                 Inl e \<Rightarrow> (Inl e, print [ProjectIs project] s1)
               | Inr ds \<Rightarrow> (Inr cfg, print [ProjectIs project, DatasetIs ds] s1)))))))"

text \<open>
  The third \<open>try\<close>: the client from the credential variable. \<open>json.loads(None)\<close>
  raises \<open>TypeError\<close>.
\<close>

definition create_client_tc ::
  "'r world \<Rightarrow> config \<Rightarrow> 'r st \<Rightarrow> (exn + client) \<times> 'r st" where
  "create_client_tc w cfg s =
     (case environ w ''GCP_SERVICE_ACCOUNT_KEY'' of
        None \<Rightarrow> (Inl TypeError, s)
      | Some gcp_credentials \<Rightarrow>
     (case json_loads w gcp_credentials of
        Inl e \<Rightarrow> (Inl e, s)
      | Inr credentials_info \<Rightarrow>
     (case from_service_account_info w credentials_info of
        Inl e \<Rightarrow> (Inl e, s)
      | Inr credentials \<Rightarrow>
     (case lookup cfg ''gcp_project_id'' of
        Inl e \<Rightarrow> (Inl e, s)
      | Inr project \<Rightarrow>
          (new_client w (Some credentials) project,
           s\<lparr>calls := calls s @ [CallNewClient (Some credentials) project]\<rparr>)))))"

text \<open>
  \<open>test_bigquery_connection\<close>: each step has its own \<open>try\<close>; the first failure is
  printed and the function returns \<open>False\<close>. The last step, the lookup of the target
  dataset, only informs.
\<close>

definition test_bigquery_connection :: "'r world \<Rightarrow> 'r st \<Rightarrow> (exn + bool) \<times> 'r st" where
  "test_bigquery_connection w s =
     (let s1 = print [Step2TestingConnection] s in
      if \<not> (installed w ''google.cloud.bigquery'' \<and> installed w ''google.oauth2'') then
        (Inr False, print [CannotImport ImportError] s1)
      else
        (case load_config_tc w (print [LibraryImported] s1) of
           (Inl e, s2) \<Rightarrow> (Inr False, print [CannotLoadConfig e] s2)
         | (Inr cfg, s2) \<Rightarrow>
        (case create_client_tc w cfg s2 of
           (Inl e, s3) \<Rightarrow> (Inr False, print [CannotCreateClient e] s3)
         | (Inr cl, s3) \<Rightarrow>
        (case request (list_datasets w cl) CallListDatasets (print [ClientCreated] s3) of
           (Inl e, s4) \<Rightarrow> (Inr False, print [CannotAccessAPI e] s4)
         | (Inr datasets, s4) \<Rightarrow>
             (let s5 = print ([CanAccessAPI, FoundDatasets (length datasets)]
                              @ map DatasetListed datasets) s4 in
              (case lookup cfg ''gcp_project_id'' of
                 Inl e \<Rightarrow> (Inl e, s5)
               | Inr project \<Rightarrow>
              (case lookup cfg ''dataset_id'' of
                 Inl e \<Rightarrow> (Inl e, s5)
               | Inr ds \<Rightarrow>
                  (let dataset_id = project @ ''.'' @ ds in
                   (case request (get_dataset w cl dataset_id) (CallGetDataset dataset_id) s5 of
                      (Inr found, s6) \<Rightarrow> (Inr True, print [TargetDatasetExists ds] s6)
                    | (Inl e, s6) \<Rightarrow> (Inr True, print [TargetDatasetMissing ds] s6))))))))))"

text \<open>
  \<open>main\<close> of the diagnostic tool: the second check runs only when the first passed;
  the value is 0 when \<open>success\<close> is still true and 1 otherwise.
\<close>

definition final_result :: "bool \<Rightarrow> 'r st \<Rightarrow> (exn + int) \<times> 'r st" where
  "final_result success s =
     (if success then (Inr 0, print [AllTestsPassed] s)
      else (Inr 1, print [TestsFailed] s))"

definition main_tc :: "'r world \<Rightarrow> 'r st \<Rightarrow> (exn + int) \<times> 'r st" where
  "main_tc w s =
     (case test_environment w (print [DiagnosticTool] s) of
        (Inl e, s1) \<Rightarrow> (Inl e, s1)
      | (Inr passed1, s1) \<Rightarrow>
          (let success = (if \<not> passed1 then False else True) in
           if success then
             (case test_bigquery_connection w s1 of
                (Inl e, s2) \<Rightarrow> (Inl e, s2)
              | (Inr passed2, s2) \<Rightarrow>
                  final_result (if \<not> passed2 then False else success) s2)
           else final_result success s1))"

section \<open>Comment-only fragments, in the words of the specification\<close>

text \<open>
  A fragment is comment-only when each of its lines, leading and trailing whitespace
  aside, is empty or a line comment (it starts with two dashes). This definition is not
  taken from the code; it is what the runner's comment (\<open>Skip comments-only
  statements\<close>) and the specification name, for comparison with the test the code
  makes.
\<close>

definition spec_comment_only :: "string \<Rightarrow> bool" where
  "spec_comment_only fragment =
     list_all (\<lambda>line. strip line = [] \<or> prefix ''--'' (strip line))
       (split_on (CHR 0x0A) fragment)"

section \<open>A sample environment\<close>

text \<open>
  A small concrete environment at which the theorems below are evaluated. Its parsers
  know a few documents by name: the YAML texts \<open>dev\<close> and \<open>prod\<close> (two configurations
  that differ in the dataset), the JSON text \<open>creds\<close> (a credential object) and the JSON
  text \<open>schema\<close> (an array of two field entries); any other text is a parse error. The
  state of its warehouse is the list of the datasets that exist: \<open>get_dataset\<close> finds
  those, \<open>create_dataset\<close> adds one. A query fails when its text starts with \<open>FAIL\<close>,
  and no table is ever found.
\<close>

definition sample_config :: config where
  "sample_config =
     [''gcp_project_id'' \<mapsto> ''proj'', ''dataset_id'' \<mapsto> ''ds'', ''table_id'' \<mapsto> ''tbl'',
      ''location'' \<mapsto> ''US'']"

definition sample_schema :: "(string \<times> json) list list" where
  "sample_schema =
     [[(''name'', JStr ''id''), (''type'', JStr ''INTEGER''), (''mode'', JStr ''REQUIRED'')],
      [(''name'', JStr ''department''), (''type'', JStr ''STRING'')]]"

definition sample_world ::
  "(string \<rightharpoonup> string) \<Rightarrow> (string \<rightharpoonup> string) \<Rightarrow> string list world" where
  "sample_world env fs =
     \<lparr>environ = env,
      files = fs,
      script_dir = ''scripts'',
      installed = (\<lambda>package. True),
      yaml_safe_load = (\<lambda>text.
        if text = ''dev'' then Inr sample_config
        else if text = ''prod'' then Inr (sample_config(''dataset_id'' \<mapsto> ''prod_ds''))
        else Inl (OtherError ''YAMLError'')),
      json_loads = (\<lambda>text.
        if text = ''creds'' then Inr (JObj [(''project_id'', JStr ''proj'')])
        else if text = ''schema'' then Inr (JArr (map JObj sample_schema))
        else Inl JSONDecodeError),
      from_service_account_info = (\<lambda>info. Inr info),
      new_client = (\<lambda>credentials project.
        Inr \<lparr>client_credentials = credentials, client_project = project\<rparr>),
      query = (\<lambda>cl sql r.
        if prefix ''FAIL'' sql then (Inl (OtherError ''BadRequest''), r)
        else (Inr \<lparr>total_bytes_processed = Some 0, num_dml_affected_rows = None,
                    result_rows = []\<rparr>, r)),
      get_table = (\<lambda>cl table_id r. (Inl (OtherError ''NotFound''), r)),
      get_dataset = (\<lambda>cl dataset_id r.
        if dataset_id \<in> set r
        then (Inr \<lparr>ds_id = dataset_id, ds_location = None, ds_description = None\<rparr>, r)
        else (Inl (OtherError ''NotFound''), r)),
      create_dataset = (\<lambda>cl ds r. (Inr ds, ds_id ds # r)),
      list_datasets = (\<lambda>cl r. (Inr r, r))\<rparr>"

definition sample_client :: client where
  "sample_client = \<lparr>client_credentials = None, client_project = ''proj''\<rparr>"

definition start :: "string list \<Rightarrow> string list st" where
  "start datasets = \<lparr>remote = datasets, out = [], calls = []\<rparr>"

section \<open>Facts about the string primitives\<close>

lemma not_sublist_Cons:
  "\<not> sublist old (c # cs) \<Longrightarrow> \<not> prefix old (c # cs) \<and> \<not> sublist old cs"
  unfolding sublist_Cons_right by simp

lemma replace_absent:
  "old \<noteq> [] \<Longrightarrow> \<not> sublist old s \<Longrightarrow> replace old new s = s"
proof (induction s)
  case Nil
  then show ?case by simp
next
  case (Cons c cs)
  from not_sublist_Cons [OF Cons.prems(2)]
  have np: "\<not> prefix old (c # cs)" and ns: "\<not> sublist old cs" by blast+
  have "replace old new (c # cs) = c # replace old new cs"
    using np Cons.prems(1) by (simp only: replace.simps if_False)
  then show ?case using Cons.IH [OF Cons.prems(1) ns] by simp
qed

lemma prefix_first_mem:
  "old \<noteq> [] \<Longrightarrow> prefix old (c # ys) \<Longrightarrow> c \<in> set old"
  by (cases old) simp_all

lemma prefix_straddle:
  assumes "prefix old (xs @ c # ys)" and "\<not> prefix old xs"
  shows "c \<in> set old"
proof -
  from assms obtain us where us: "old = xs @ us" "prefix us (c # ys)"
    unfolding prefix_append by blast
  from us(1) assms(2) have "us \<noteq> []" by auto
  with us(2) have "c \<in> set us" using prefix_first_mem [of us c ys] by blast
  with us(1) show ?thesis by simp
qed

lemma replace_skip:
  "old \<noteq> [] \<Longrightarrow> \<not> sublist old xs \<Longrightarrow> c \<notin> set old \<Longrightarrow>
   replace old new (xs @ c # ys) = xs @ c # replace old new ys"
proof (induction xs)
  case Nil
  have "\<not> prefix old (c # ys)"
    using prefix_first_mem [of old c ys] Nil.prems(1,3) by blast
  then have "replace old new (c # ys) = c # replace old new ys"
    using Nil.prems(1) by (simp only: replace.simps if_False)
  then show ?case by simp
next
  case (Cons x xs)
  from not_sublist_Cons [OF Cons.prems(2)]
  have npx: "\<not> prefix old (x # xs)" and ns: "\<not> sublist old xs" by blast+
  have "\<not> prefix old ((x # xs) @ c # ys)"
    using prefix_straddle [of old "x # xs" c ys] npx Cons.prems(3) by blast
  then have np: "\<not> prefix old (x # xs @ c # ys)" by simp
  have "replace old new (x # xs @ c # ys) = x # replace old new (xs @ c # ys)"
    using np Cons.prems(1) by (simp only: replace.simps if_False)
  then show ?case using Cons.IH [OF Cons.prems(1) ns Cons.prems(3)] by simp
qed

lemma split_on_nonempty: "split_on sep s \<noteq> []"
  by (induction s) (auto split: list.splits)

lemma length_split_on:
  "length (split_on sep s) = Suc (length (filter (\<lambda>c. c = sep) s))"
  by (induction s) (auto simp: split_on_nonempty split: list.splits)

lemma comprehension_filter:
  "[strip s. s \<leftarrow> xs, strip s \<noteq> []] = filter (\<lambda>f. f \<noteq> []) (map strip xs)"
  by (induction xs) simp_all

lemma split_statements_filter:
  "split_statements s = filter (\<lambda>f. f \<noteq> []) (map strip (split_on CHR '';'' s))"
  unfolding split_statements_def by (rule comprehension_filter)

section \<open>Facts about parameter substitution\<close>

lemma substitute_parameters_seq:
  assumes "cfg ''gcp_project_id'' = Some p" "cfg ''dataset_id'' = Some d" "cfg ''table_id'' = Some t"
  shows "substitute_parameters sql cfg
   = Inr (replace ''{table_id}'' t (replace ''{dataset_id}'' d (replace ''{project_id}'' p sql)))"
  using assms by (simp add: substitute_parameters_def lookup_def)

lemma example_sequential:
  assumes "\<not> sublist ''{dataset_id}'' p" "\<not> sublist ''{table_id}'' p" "\<not> sublist ''{table_id}'' d"
  shows "replace ''{table_id}'' t (replace ''{dataset_id}'' d (replace ''{project_id}'' p
      ''SELECT * FROM {project_id}.{dataset_id}.{table_id}''))
   = ''SELECT * FROM '' @ p @ ''.'' @ d @ ''.'' @ t"
proof -
  have 1: "replace ''{project_id}'' p ''SELECT * FROM {project_id}.{dataset_id}.{table_id}''
     = ''SELECT * FROM '' @ p @ ''.{dataset_id}.{table_id}''"
    by simp
  have 2: "replace ''{dataset_id}'' d (''SELECT * FROM '' @ p @ ''.{dataset_id}.{table_id}'')
     = ''SELECT * FROM '' @ p @ ''.'' @ d @ ''.{table_id}''"
    using assms(1) by (simp add: replace_skip)
  have 3: "replace ''{table_id}'' t (''SELECT * FROM '' @ p @ ''.'' @ d @ ''.{table_id}'')
     = ''SELECT * FROM '' @ p @ ''.'' @ d @ ''.'' @ t"
    using assms(2,3) by (simp add: replace_skip)
  show ?thesis by (simp only: 1 2 3)
qed

section \<open>Facts about the state and the schema loader\<close>

lemma print_simps [simp]:
  "out (print ms s) = out s @ ms" "calls (print ms s) = calls s" "remote (print ms s) = remote s"
  by (simp_all add: print_def)

lemma request_eq:
  "f (remote s) = (r, rem') \<Longrightarrow>
   request f c s = (r, s\<lparr>remote := rem', calls := calls s @ [c]\<rparr>)"
  by (simp add: request_def)

lemma request_calls [simp]: "calls (snd (request f c s)) = calls s @ [c]"
  by (simp add: request_def split: prod.splits)

lemma request_out [simp]: "out (snd (request f c s)) = out s"
  by (simp add: request_def split: prod.splits)

lemma request_fst [simp]: "fst (request f c s) = fst (f (remote s))"
  by (simp add: request_def split: prod.splits)

lemma schema_field_of_JObj:
  assumes "map_of kvs ''name'' = Some n" and "map_of kvs ''type'' = Some ty"
  shows "schema_field_of (JObj kvs) =
     Inr \<lparr>sf_name = n, sf_field_type = ty,
          sf_mode = (case map_of kvs ''mode'' of None \<Rightarrow> JStr ''NULLABLE'' | Some m \<Rightarrow> m),
          sf_description = (case map_of kvs ''description'' of None \<Rightarrow> JStr [] | Some x \<Rightarrow> x)\<rparr>"
  using assms by (simp add: schema_field_of_def subscript_def dict_get_def split: option.splits)

lemma schema_fields_JObj:
  assumes "\<forall>kvs \<in> set kvss. map_of kvs ''name'' \<noteq> None \<and> map_of kvs ''type'' \<noteq> None"
  shows "\<exists>fs. schema_fields (map JObj kvss) = Inr fs \<and>
     list_all2 (\<lambda>kvs f.
        map_of kvs ''name'' = Some (sf_name f) \<and>
        map_of kvs ''type'' = Some (sf_field_type f) \<and>
        sf_mode f = (case map_of kvs ''mode'' of None \<Rightarrow> JStr ''NULLABLE'' | Some m \<Rightarrow> m) \<and>
        sf_description f = (case map_of kvs ''description'' of None \<Rightarrow> JStr [] | Some x \<Rightarrow> x))
       kvss fs"
  using assms
proof (induction kvss)
  case Nil
  then show ?case by simp
next
  case (Cons kvs kvss)
  from Cons.prems obtain n ty where nt: "map_of kvs ''name'' = Some n" "map_of kvs ''type'' = Some ty"
    by auto
  from Cons.prems have "\<forall>kvs \<in> set kvss. map_of kvs ''name'' \<noteq> None \<and> map_of kvs ''type'' \<noteq> None"
    by simp
  from Cons.IH [OF this] obtain fs where fs: "schema_fields (map JObj kvss) = Inr fs"
    "list_all2 (\<lambda>kvs f.
        map_of kvs ''name'' = Some (sf_name f) \<and>
        map_of kvs ''type'' = Some (sf_field_type f) \<and>
        sf_mode f = (case map_of kvs ''mode'' of None \<Rightarrow> JStr ''NULLABLE'' | Some m \<Rightarrow> m) \<and>
        sf_description f = (case map_of kvs ''description'' of None \<Rightarrow> JStr [] | Some x \<Rightarrow> x))
       kvss fs" by blast
  show ?case
    using fs nt by (simp add: schema_field_of_JObj)
qed

lemma path_join_simps [simp]:
  "path_join a [] = a" "path_join a (b # bs) = path_join (join2 a b) bs"
  by (simp_all add: path_join_def)

section \<open>Facts about the transformation runner\<close>

lemma execute_sql_calls:
  "calls (snd (execute_sql w cl q d s)) = calls s @ [CallQuery q]"
  by (simp add: execute_sql_def Let_def request_def split: prod.splits sum.splits option.splits)

lemma execute_sql_out: "\<exists>ms. out (snd (execute_sql w cl q d s)) = out s @ ms"
  by (simp add: execute_sql_def Let_def request_def split: prod.splits sum.splits option.splits)

lemma run_statements_calls:
  "calls (run_statements w cl d n ps s)
   = calls s @ map CallQuery (filter (\<lambda>q. \<not> prefix ''--'' q \<and> q \<noteq> []) (map snd ps))"
proof (induction ps arbitrary: s)
  case Nil
  then show ?case by simp
next
  case (Cons a ps)
  obtain i q where a: "a = (i, q)" by (cases a)
  show ?case
  proof (cases "prefix ''--'' q \<or> q = []")
    case True
    then show ?thesis using Cons.IH a by auto
  next
    case False
    obtain r s1 where e: "execute_sql w cl q (d @ '' - Statement '' @ str_nat i @ ''/'' @ str_nat n) s = (r, s1)"
      by (cases "execute_sql w cl q (d @ '' - Statement '' @ str_nat i @ ''/'' @ str_nat n) s")
    have c: "calls s1 = calls s @ [CallQuery q]"
      using execute_sql_calls [of w cl q "d @ '' - Statement '' @ str_nat i @ ''/'' @ str_nat n" s]
      unfolding e by simp
    show ?thesis
      using False a e c Cons.IH by (cases r) simp_all
  qed
qed

lemma run_statements_out: "\<exists>ms. out (run_statements w cl d n ps s) = out s @ ms"
proof (induction ps arbitrary: s)
  case Nil
  then show ?case by simp
next
  case (Cons a ps)
  obtain i q where a: "a = (i, q)" by (cases a)
  show ?case
  proof (cases "prefix ''--'' q \<or> q = []")
    case True
    then show ?thesis using Cons.IH a by auto
  next
    case False
    obtain r s1 where e: "execute_sql w cl q (d @ '' - Statement '' @ str_nat i @ ''/'' @ str_nat n) s = (r, s1)"
      by (cases "execute_sql w cl q (d @ '' - Statement '' @ str_nat i @ ''/'' @ str_nat n) s")
    from execute_sql_out [of w cl q "d @ '' - Statement '' @ str_nat i @ ''/'' @ str_nat n" s]
    obtain ms where ms: "out s1 = out s @ ms" unfolding e by auto
    show ?thesis
    proof (cases r)
      case (Inl x)
      from Cons.IH [of "print [StatementError i x] s1"]
      obtain ms' where "out (run_statements w cl d n ps (print [StatementError i x] s1))
          = out (print [StatementError i x] s1) @ ms'" by blast
      then show ?thesis using False a e Inl ms by simp
    next
      case (Inr job)
      from Cons.IH [of s1] obtain ms' where "out (run_statements w cl d n ps s1) = out s1 @ ms'"
        by blast
      then show ?thesis using False a e Inr ms by simp
    qed
  qed
qed

lemma run_statements_append:
  "run_statements w cl d n (xs @ ys) s = run_statements w cl d n ys (run_statements w cl d n xs s)"
proof (induction xs arbitrary: s)
  case Nil
  then show ?case by simp
next
  case (Cons a xs)
  obtain i q where a: "a = (i, q)" by (cases a)
  show ?case using Cons.IH a by (simp split: prod.splits sum.splits)
qed

lemma run_statements_error_logged:
  assumes "\<not> prefix ''--'' q" and "q \<noteq> []"
    and "fst (execute_sql w cl q (d @ '' - Statement '' @ str_nat i @ ''/'' @ str_nat n)
               (run_statements w cl d n pre s)) = Inl e"
  shows "StatementError i e \<in> set (out (run_statements w cl d n (pre @ (i, q) # post) s))"
proof -
  let ?s1 = "run_statements w cl d n pre s"
  obtain s2 where e: "execute_sql w cl q (d @ '' - Statement '' @ str_nat i @ ''/'' @ str_nat n) ?s1
      = (Inl e, s2)"
    using assms(3) by (cases "execute_sql w cl q (d @ '' - Statement '' @ str_nat i @ ''/'' @ str_nat n) ?s1") simp
  have "run_statements w cl d n (pre @ (i, q) # post) s
      = run_statements w cl d n post (print [StatementError i e] s2)"
    using assms(1,2) e by (simp add: run_statements_append)
  moreover obtain ms where "out (run_statements w cl d n post (print [StatementError i e] s2))
      = out (print [StatementError i e] s2) @ ms"
    using run_statements_out by blast
  ultimately show ?thesis by simp
qed

lemma map_snd_enumerate1 [simp]: "map snd (enumerate1 xs) = xs"
  unfolding enumerate1_def by (rule map_snd_zip) (simp del: upt_Suc)

lemma split_statements_nonempty: "q \<in> set (split_statements sql) \<Longrightarrow> q \<noteq> []"
  by (auto simp: split_statements_def)

lemma filter_statements:
  "filter (\<lambda>q. \<not> prefix ''--'' q \<and> q \<noteq> []) (split_statements sql)
   = filter (\<lambda>q. \<not> prefix ''--'' q) (split_statements sql)"
  by (rule filter_cong) (auto dest: split_statements_nonempty)

lemma run_sql_file_present:
  assumes "files w (path_join (script_dir w) [''..'', ''sql'', f]) = Some content"
    and "substitute_parameters content cfg = Inr sql"
  shows "run_sql_file w cl cfg f d s =
     (Inr (), run_statements w cl d (length (split_statements sql))
                (enumerate1 (split_statements sql))
                (print [FoundStatements (length (split_statements sql))]
                   (print [Processing f] s)))"
  using assms by (simp add: run_sql_file_def Let_def)

lemma run_sql_file_absent:
  assumes "files w (path_join (script_dir w) [''..'', ''sql'', f]) = None"
  shows "run_sql_file w cl cfg f d s =
     (Inr (), print [FileNotFound (path_join (script_dir w) [''..'', ''sql'', f])]
                (print [Processing f] s))"
  using assms by (simp add: run_sql_file_def Let_def)

lemma print_rows_calls [simp]: "calls (snd (print_rows rs s)) = calls s"
  by (induction rs s rule: print_rows.induct) simp_all

lemma print_rows_out: "\<exists>ms. out (snd (print_rows rs s)) = out s @ ms"
proof (induction rs s rule: print_rows.induct)
  case (3 line rest s)
  then obtain ms where "out (snd (print_rows rest (print [ResultRow line] s)))
      = out (print [ResultRow line] s) @ ms" by blast
  then show ?case by simp
qed simp_all

lemma verify_transformations_ok:
  assumes "cfg ''gcp_project_id'' = Some p" and "cfg ''dataset_id'' = Some d"
  shows "fst (verify_transformations w cl cfg s) = Inr ()"
  using assms
  by (simp add: verify_transformations_def lookup_def Let_def
        split: prod.splits sum.splits)

lemma verify_transformations_calls:
  assumes "cfg ''gcp_project_id'' = Some p" and "cfg ''dataset_id'' = Some d"
  shows "\<exists>cs. calls (snd (verify_transformations w cl cfg s))
     = calls s @ CallGetTable (p @ ''.'' @ d @ ''.department_summary'') # cs"
proof -
  let ?tid = "p @ ''.'' @ d @ ''.department_summary''"
  let ?s1 = "print [VerifyingTransformations] s"
  obtain r s2 where g: "request (get_table w cl ?tid) (CallGetTable ?tid) ?s1 = (r, s2)"
    by (cases "request (get_table w cl ?tid) (CallGetTable ?tid) ?s1")
  have c2: "calls s2 = calls s @ [CallGetTable ?tid]"
    using request_calls [of "get_table w cl ?tid" "CallGetTable ?tid" ?s1] unfolding g by simp
  show ?thesis
  proof (cases r)
    case (Inl e)
    then show ?thesis using assms g c2
      by (simp add: verify_transformations_def lookup_def Let_def)
  next
    case (Inr tbl)
    let ?s3 = "print [TableExists (num_rows tbl), DepartmentSummaryResults] s2"
    obtain r4 s4 where e: "execute_sql w cl (verify_query p d) ''Verification query'' ?s3 = (r4, s4)"
      by (cases "execute_sql w cl (verify_query p d) ''Verification query'' ?s3")
    have c4: "calls s4 = calls s @ [CallGetTable ?tid, CallQuery (verify_query p d)]"
      using execute_sql_calls [of w cl "verify_query p d" "''Verification query''" ?s3] c2
      unfolding e by simp
    show ?thesis
    proof (cases r4)
      case (Inl e')
      then show ?thesis using assms g Inr e c4
        by (simp add: verify_transformations_def lookup_def Let_def)
    next
      case (Inr job)
      obtain r5 s5 where p5: "print_rows (result_rows job) s4 = (r5, s5)"
        by (cases "print_rows (result_rows job) s4")
      have c5: "calls s5 = calls s4"
        using print_rows_calls [of "result_rows job" s4] unfolding p5 by simp
      show ?thesis using assms g \<open>r = Inr tbl\<close> e Inr p5 c5 c4
        by (cases r5) (simp_all add: verify_transformations_def lookup_def Let_def)
    qed
  qed
qed

lemma verify_transformations_out:
  assumes "cfg ''gcp_project_id'' = Some p" and "cfg ''dataset_id'' = Some d"
  shows "\<exists>ms. out (snd (verify_transformations w cl cfg s))
     = out s @ VerifyingTransformations # ms"
proof -
  let ?tid = "p @ ''.'' @ d @ ''.department_summary''"
  let ?s1 = "print [VerifyingTransformations] s"
  obtain r s2 where g: "request (get_table w cl ?tid) (CallGetTable ?tid) ?s1 = (r, s2)"
    by (cases "request (get_table w cl ?tid) (CallGetTable ?tid) ?s1")
  have o2: "out s2 = out s @ [VerifyingTransformations]"
    using request_out [of "get_table w cl ?tid" "CallGetTable ?tid" ?s1] unfolding g by simp
  show ?thesis
  proof (cases r)
    case (Inl e)
    then show ?thesis using assms g o2
      by (simp add: verify_transformations_def lookup_def Let_def)
  next
    case (Inr tbl)
    let ?s3 = "print [TableExists (num_rows tbl), DepartmentSummaryResults] s2"
    obtain r4 s4 where e: "execute_sql w cl (verify_query p d) ''Verification query'' ?s3 = (r4, s4)"
      by (cases "execute_sql w cl (verify_query p d) ''Verification query'' ?s3")
    obtain ms4 where o4: "out s4 = out ?s3 @ ms4"
      using execute_sql_out [of w cl "verify_query p d" "''Verification query''" ?s3]
      unfolding e by auto
    show ?thesis
    proof (cases r4)
      case (Inl e')
      then show ?thesis using assms g Inr e o4 o2
        by (simp add: verify_transformations_def lookup_def Let_def)
    next
      case (Inr job)
      obtain r5 s5 where p5: "print_rows (result_rows job) s4 = (r5, s5)"
        by (cases "print_rows (result_rows job) s4")
      obtain ms5 where o5: "out s5 = out s4 @ ms5"
        using print_rows_out [of "result_rows job" s4] unfolding p5 by auto
      show ?thesis using assms g \<open>r = Inr tbl\<close> e Inr p5 o5 o4 o2
        by (cases r5) (simp_all add: verify_transformations_def lookup_def Let_def)
    qed
  qed
qed

lemma get_bigquery_client_rt_grows:
  "\<exists>ms cs. out (snd (get_bigquery_client_rt w cfg s)) = out s @ ms
         \<and> calls (snd (get_bigquery_client_rt w cfg s)) = calls s @ cs"
  by (simp add: get_bigquery_client_rt_def Let_def
        split: option.splits sum.splits)

lemma main_rt_unfold:
  assumes "files w (path_join (script_dir w) [''..'', ''config'',
             (case environ w ''CONFIG_FILE'' of None \<Rightarrow> ''config.yaml'' | Some f \<Rightarrow> f)])
           = Some text"
    and "yaml_safe_load w text = Inr cfg"
    and "cfg ''gcp_project_id'' = Some p" and "cfg ''dataset_id'' = Some d"
    and "get_bigquery_client_rt w cfg
           (print [ProjectIs p, DatasetIs d]
              (print [LoadingConfigFrom
                        (case environ w ''CONFIG_FILE'' of None \<Rightarrow> ''config.yaml'' | Some f \<Rightarrow> f)]
                 (print [StartingTransformations, LoadingConfiguration] s)))
         = (Inr cl, s2)"
    and "run_sql_file w cl cfg ''transformations.sql'' ''Data transformations'' s2 = (Inr (), s3)"
  shows "main_rt w s =
     (Inr 0, print [AllTransformationsCompleted]
               (snd (verify_transformations w cl cfg (print [WaitingForBigQuery] s3))))"
proof -
  obtain r4 s4 where v: "verify_transformations w cl cfg (print [WaitingForBigQuery] s3) = (r4, s4)"
    by (cases "verify_transformations w cl cfg (print [WaitingForBigQuery] s3)")
  have "r4 = Inr ()"
    using verify_transformations_ok [OF assms(3,4), of w cl "print [WaitingForBigQuery] s3"]
    unfolding v by simp
  then show ?thesis
    using assms v by (simp add: main_rt_def load_config_rt_def lookup_def Let_def)
qed

lemma sample_client_ok:
  "fst (get_bigquery_client_rt (sample_world Map.empty fs) sample_config s') = Inr sample_client"
  by (simp add: get_bigquery_client_rt_def truthy_env_def sample_world_def sample_config_def
        sample_client_def lookup_def Let_def)

section \<open>Facts about the diagnostic tool\<close>

lemma test_environment_calls: "calls (snd (test_environment w s)) = calls s"
  by (simp add: test_environment_def Let_def split: option.splits sum.splits)

lemma test_environment_unset:
  assumes "environ w ''GCP_SERVICE_ACCOUNT_KEY'' = None \<or> environ w ''GCP_SERVICE_ACCOUNT_KEY'' = Some []"
  shows "fst (test_environment w s) = Inr False"
  using assms by (auto simp: test_environment_def truthy_env_def Let_def)

lemma test_environment_invalid:
  assumes "environ w ''GCP_SERVICE_ACCOUNT_KEY'' = Some key" and "key \<noteq> []"
    and "json_loads w key = Inl e"
  shows "fst (test_environment w s) \<noteq> Inr True"
  using assms by (simp add: test_environment_def truthy_env_def Let_def)

lemma main_tc_first_check_fails:
  assumes "fst (test_environment w (print [DiagnosticTool] s)) \<noteq> Inr True"
  shows "exit_status (fst (main_tc w s)) = 1 \<and> calls (snd (main_tc w s)) = calls s"
proof -
  obtain r1 s1 where te: "test_environment w (print [DiagnosticTool] s) = (r1, s1)"
    by (cases "test_environment w (print [DiagnosticTool] s)")
  have c1: "calls s1 = calls s"
    using test_environment_calls [of w "print [DiagnosticTool] s"] unfolding te by simp
  show ?thesis
  proof (cases r1)
    case (Inl e)
    then show ?thesis using te c1 by (simp add: main_tc_def exit_status_def)
  next
    case (Inr b)
    with assms te have "\<not> b" by simp
    then show ?thesis using te Inr c1
      by (simp add: main_tc_def exit_status_def final_result_def)
  qed
qed

lemma main_tc_exit_zero_iff:
  "exit_status (fst (main_tc w s)) = 0 \<longleftrightarrow>
     fst (test_environment w (print [DiagnosticTool] s)) = Inr True \<and>
     fst (test_bigquery_connection w (snd (test_environment w (print [DiagnosticTool] s))))
       = Inr True"
proof -
  obtain r1 s1 where te: "test_environment w (print [DiagnosticTool] s) = (r1, s1)"
    by (cases "test_environment w (print [DiagnosticTool] s)")
  obtain r2 s2 where tb: "test_bigquery_connection w s1 = (r2, s2)"
    by (cases "test_bigquery_connection w s1")
  show ?thesis
  proof (cases r1)
    case (Inl e)
    then show ?thesis using te by (simp add: main_tc_def exit_status_def)
  next
    case (Inr b)
    show ?thesis
    proof (cases b)
      case False
      then show ?thesis using te Inr
        by (simp add: main_tc_def exit_status_def final_result_def)
    next
      case True
      show ?thesis
      proof (cases r2)
        case (Inl e)
        then show ?thesis using te \<open>r1 = Inr b\<close> True tb
          by (simp add: main_tc_def exit_status_def)
      next
        case (Inr b2)
        then show ?thesis using te \<open>r1 = Inr b\<close> True tb
          by (cases b2) (simp_all add: main_tc_def exit_status_def final_result_def)
      qed
    qed
  qed
qed

section \<open>The claims\<close>

text \<open>
  Claim C4. For the text \<open>A; B;; C\<close> the statement splitter yields exactly the list
  \<open>A\<close>, \<open>B\<close>, \<open>C\<close>. In general the text is cut at every semicolon (there is one
  fragment more than there are semicolons), each fragment is stripped, and the fragments
  that are empty after stripping are dropped, the others keeping their order.
\<close>

theorem C4_splitter: "split_statements ''A; B;; C'' = [''A'', ''B'', ''C'']
  \<and> split_statements s = filter (\<lambda>f. f \<noteq> []) (map strip (split_on CHR '';'' s))
  \<and> length (split_on CHR '';'' s) = Suc (length (filter (\<lambda>c. c = CHR '';'') s))"
proof (intro conjI)
  show "split_statements ''A; B;; C'' = [''A'', ''B'', ''C'']"
    by (simp add: split_statements_def strip_def isspace_def)
  show "split_statements s = filter (\<lambda>f. f \<noteq> []) (map strip (split_on CHR '';'' s))"
    by (rule split_statements_filter)
  show "length (split_on CHR '';'' s) = Suc (length (filter (\<lambda>c. c = CHR '';'') s))"
    by (rule length_split_on)
qed

text \<open>
  Claim C5, as amended. Parameter substitution replaces the three placeholders one after
  the other: all occurrences of \<open>{project_id}\<close>, then all occurrences of
  \<open>{dataset_id}\<close> in the result, then all occurrences of \<open>{table_id}\<close> in that
  result. For config values p, d, t such that p contains neither \<open>{dataset_id}\<close> nor
  \<open>{table_id}\<close> and d does not contain \<open>{table_id}\<close>, the text
  \<open>SELECT * FROM {project_id}.{dataset_id}.{table_id}\<close> yields
  \<open>SELECT * FROM p.d.t\<close>; a text that contains none of the three placeholders is
  returned unchanged.
\<close>

theorem C5_substitution:
  assumes "cfg ''gcp_project_id'' = Some p" and "cfg ''dataset_id'' = Some d"
    and "cfg ''table_id'' = Some t"
  shows "substitute_parameters sql cfg =
           Inr (replace ''{table_id}'' t (replace ''{dataset_id}'' d
                  (replace ''{project_id}'' p sql)))
       \<and> (\<not> sublist ''{dataset_id}'' p \<and> \<not> sublist ''{table_id}'' p \<and> \<not> sublist ''{table_id}'' d
            \<longrightarrow> substitute_parameters ''SELECT * FROM {project_id}.{dataset_id}.{table_id}'' cfg
                = Inr (''SELECT * FROM '' @ p @ ''.'' @ d @ ''.'' @ t))
       \<and> (\<not> sublist ''{project_id}'' sql \<and> \<not> sublist ''{dataset_id}'' sql
            \<and> \<not> sublist ''{table_id}'' sql
            \<longrightarrow> substitute_parameters sql cfg = Inr sql)"
proof (intro conjI impI)
  show "substitute_parameters sql cfg =
           Inr (replace ''{table_id}'' t (replace ''{dataset_id}'' d
                  (replace ''{project_id}'' p sql)))"
    using assms by (rule substitute_parameters_seq)
next
  assume "\<not> sublist ''{dataset_id}'' p \<and> \<not> sublist ''{table_id}'' p \<and> \<not> sublist ''{table_id}'' d"
  then show "substitute_parameters ''SELECT * FROM {project_id}.{dataset_id}.{table_id}'' cfg
                = Inr (''SELECT * FROM '' @ p @ ''.'' @ d @ ''.'' @ t)"
    using substitute_parameters_seq [OF assms] example_sequential by simp
next
  assume "\<not> sublist ''{project_id}'' sql \<and> \<not> sublist ''{dataset_id}'' sql
            \<and> \<not> sublist ''{table_id}'' sql"
  then show "substitute_parameters sql cfg = Inr sql"
    using substitute_parameters_seq [OF assms, of sql] by (simp add: replace_absent)
qed

text \<open>
  The theorem at the config of the specification's example, whose values are the
  one-letter strings p, d and t, and at a text without placeholders.
\<close>

theorem C5_substitution_witness:
  "substitute_parameters ''SELECT * FROM {project_id}.{dataset_id}.{table_id}''
     [''gcp_project_id'' \<mapsto> ''p'', ''dataset_id'' \<mapsto> ''d'', ''table_id'' \<mapsto> ''t'']
     = Inr ''SELECT * FROM p.d.t''
   \<and> substitute_parameters ''SELECT 1''
     [''gcp_project_id'' \<mapsto> ''p'', ''dataset_id'' \<mapsto> ''d'', ''table_id'' \<mapsto> ''t'']
     = Inr ''SELECT 1''"
  using C5_substitution [of "[''gcp_project_id'' \<mapsto> ''p'', ''dataset_id'' \<mapsto> ''d'', ''table_id'' \<mapsto> ''t'']"
      "''p''" "''d''" "''t''" "''SELECT 1''"]
  by (simp add: sublist_code)

text \<open>
  Claim C5 as stated, for all config values, is false: with the project id
  \<open>{dataset_id}\<close> the example yields \<open>SELECT * FROM d.d.t\<close>, because the second
  replacement also rewrites the project id the first one has put in.
\<close>

theorem C5_universal_counterexample:
  "\<not> (\<forall>p d t. substitute_parameters ''SELECT * FROM {project_id}.{dataset_id}.{table_id}''
          [''gcp_project_id'' \<mapsto> p, ''dataset_id'' \<mapsto> d, ''table_id'' \<mapsto> t]
        = Inr (''SELECT * FROM '' @ p @ ''.'' @ d @ ''.'' @ t))"
proof
  assume a: "\<forall>p d t. substitute_parameters ''SELECT * FROM {project_id}.{dataset_id}.{table_id}''
          [''gcp_project_id'' \<mapsto> p, ''dataset_id'' \<mapsto> d, ''table_id'' \<mapsto> t]
        = Inr (''SELECT * FROM '' @ p @ ''.'' @ d @ ''.'' @ t)"
  have "substitute_parameters ''SELECT * FROM {project_id}.{dataset_id}.{table_id}''
          [''gcp_project_id'' \<mapsto> ''{dataset_id}'', ''dataset_id'' \<mapsto> ''d'', ''table_id'' \<mapsto> ''t'']
        = Inr ''SELECT * FROM d.d.t''"
    by (simp add: substitute_parameters_def lookup_def)
  with a [rule_format, of "''{dataset_id}''" "''d''" "''t''"] show False by simp
qed

text \<open>
  Claim C10. The placeholders are substituted one after the other, in the order
  \<open>{project_id}\<close>, \<open>{dataset_id}\<close>, \<open>{table_id}\<close>, not simultaneously: the
  result is the composition of the three replacements, and with the project id
  \<open>a{dataset_id}b\<close> and the dataset id \<open>D\<close> the text \<open>{project_id}\<close> becomes
  \<open>aDb\<close>, the dataset id embedded in the substituted project id.
\<close>

theorem C10_sequential_order:
  "substitute_parameters sql
     [''gcp_project_id'' \<mapsto> p, ''dataset_id'' \<mapsto> d, ''table_id'' \<mapsto> t]
     = Inr (replace ''{table_id}'' t (replace ''{dataset_id}'' d (replace ''{project_id}'' p sql)))
   \<and> substitute_parameters ''{project_id}''
       [''gcp_project_id'' \<mapsto> ''a{dataset_id}b'', ''dataset_id'' \<mapsto> ''D'', ''table_id'' \<mapsto> ''T'']
     = Inr ''aDb''"
  by (simp add: substitute_parameters_def lookup_def)

text \<open>
  Claim C6. For a schema file that holds a JSON array of N field entries (objects with
  the keys \<open>name\<close> and \<open>type\<close>), the schema loader returns exactly N field
  definitions, in the order of the file; each carries its entry's name and type, its
  mode (\<open>NULLABLE\<close> when the entry has none) and its description (the empty string when
  the entry has none).
\<close>

theorem C6_schema_loader:
  assumes "files w (path_join (script_dir w) [''..'', ''data'', ''schemas'', schema_file]) = Some text"
    and "json_loads w text = Inr (JArr (map JObj kvss))"
    and "\<forall>kvs \<in> set kvss. map_of kvs ''name'' \<noteq> None \<and> map_of kvs ''type'' \<noteq> None"
  shows "\<exists>fs. load_table_schema w schema_file = Inr fs \<and> length fs = length kvss \<and>
     list_all2 (\<lambda>kvs f.
        map_of kvs ''name'' = Some (sf_name f) \<and>
        map_of kvs ''type'' = Some (sf_field_type f) \<and>
        sf_mode f = (case map_of kvs ''mode'' of None \<Rightarrow> JStr ''NULLABLE'' | Some m \<Rightarrow> m) \<and>
        sf_description f = (case map_of kvs ''description'' of None \<Rightarrow> JStr [] | Some x \<Rightarrow> x))
       kvss fs"
proof -
  from schema_fields_JObj [OF assms(3)] obtain fs where fs: "schema_fields (map JObj kvss) = Inr fs"
    "list_all2 (\<lambda>kvs f.
        map_of kvs ''name'' = Some (sf_name f) \<and>
        map_of kvs ''type'' = Some (sf_field_type f) \<and>
        sf_mode f = (case map_of kvs ''mode'' of None \<Rightarrow> JStr ''NULLABLE'' | Some m \<Rightarrow> m) \<and>
        sf_description f = (case map_of kvs ''description'' of None \<Rightarrow> JStr [] | Some x \<Rightarrow> x))
       kvss fs" by blast
  have "load_table_schema w schema_file = Inr fs"
    using assms(1,2) fs(1) by (simp add: load_table_schema_def iterate_def)
  moreover have "length fs = length kvss"
    using fs(2) by (simp add: list_all2_lengthD)
  ultimately show ?thesis using fs(2) by blast
qed

text \<open>The schema loader on the two entries of the sample schema.\<close>

theorem C6_schema_loader_witness:
  "load_table_schema
     (sample_world Map.empty [''scripts/../data/schemas/employees.json'' \<mapsto> ''schema''])
     ''employees.json''
   = Inr [\<lparr>sf_name = JStr ''id'', sf_field_type = JStr ''INTEGER'',
            sf_mode = JStr ''REQUIRED'', sf_description = JStr ''''\<rparr>,
          \<lparr>sf_name = JStr ''department'', sf_field_type = JStr ''STRING'',
            sf_mode = JStr ''NULLABLE'', sf_description = JStr ''''\<rparr>]"
  using C6_schema_loader [of
      "sample_world Map.empty [''scripts/../data/schemas/employees.json'' \<mapsto> ''schema'']"
      "''employees.json''" "''schema''" sample_schema]
  by (simp add: sample_world_def sample_schema_def join2_def suffix_to_prefix load_table_schema_def
        iterate_def schema_field_of_def subscript_def dict_get_def)

text \<open>
  Claim C7. The dataset ensurer is idempotent: when the dataset exists (the lookup
  returns), the only request is the lookup and nothing is created; when it is absent
  (the lookup raises) and the config has a location, the lookup is followed by exactly
  one creation request, for a dataset whose location is the configured one.
\<close>

theorem C7_dataset_ensurer:
  assumes "cfg ''gcp_project_id'' = Some p" and "cfg ''dataset_id'' = Some d"
  shows "(\<forall>found r'. get_dataset w cl (p @ ''.'' @ d) (remote s) = (Inr found, r') \<longrightarrow>
            fst (create_dataset_if_not_exists w cl cfg s) = Inr () \<and>
            calls (snd (create_dataset_if_not_exists w cl cfg s))
              = calls s @ [CallGetDataset (p @ ''.'' @ d)])
       \<and> (\<forall>e r' loc. get_dataset w cl (p @ ''.'' @ d) (remote s) = (Inl e, r')
              \<and> cfg ''location'' = Some loc \<longrightarrow>
            calls (snd (create_dataset_if_not_exists w cl cfg s))
              = calls s @ [CallGetDataset (p @ ''.'' @ d),
                           CallCreateDataset \<lparr>ds_id = p @ ''.'' @ d, ds_location = Some loc,
                             ds_description = Some ''Dataset created by CI/CD pipeline''\<rparr>])"
proof (intro conjI allI impI)
  fix found r'
  assume g: "get_dataset w cl (p @ ''.'' @ d) (remote s) = (Inr found, r')"
  show "fst (create_dataset_if_not_exists w cl cfg s) = Inr ()"
    using assms g by (simp add: create_dataset_if_not_exists_def lookup_def request_eq Let_def)
  show "calls (snd (create_dataset_if_not_exists w cl cfg s))
              = calls s @ [CallGetDataset (p @ ''.'' @ d)]"
    using assms g by (simp add: create_dataset_if_not_exists_def lookup_def request_eq Let_def)
next
  fix e r' loc
  assume "get_dataset w cl (p @ ''.'' @ d) (remote s) = (Inl e, r')
              \<and> cfg ''location'' = Some loc"
  then have g: "get_dataset w cl (p @ ''.'' @ d) (remote s) = (Inl e, r')"
    and l: "cfg ''location'' = Some loc" by simp_all
  show "calls (snd (create_dataset_if_not_exists w cl cfg s))
              = calls s @ [CallGetDataset (p @ ''.'' @ d),
                           CallCreateDataset \<lparr>ds_id = p @ ''.'' @ d, ds_location = Some loc,
                             ds_description = Some ''Dataset created by CI/CD pipeline''\<rparr>]"
  proof (cases "create_dataset w cl \<lparr>ds_id = p @ ''.'' @ d, ds_location = Some loc,
         ds_description = Some ''Dataset created by CI/CD pipeline''\<rparr> r'")
    case (Pair r2 r'')
    then show ?thesis
      using assms g l
      by (cases r2) (simp_all add: create_dataset_if_not_exists_def lookup_def request_eq Let_def)
  qed
qed

text \<open>
  The dataset ensurer in the sample environment, first with the dataset present, then
  with no dataset at all.
\<close>

theorem C7_dataset_ensurer_witness:
  "calls (snd (create_dataset_if_not_exists (sample_world Map.empty Map.empty) sample_client
          sample_config (start [''proj.ds''])))
     = [CallGetDataset ''proj.ds'']
   \<and> calls (snd (create_dataset_if_not_exists (sample_world Map.empty Map.empty) sample_client
          sample_config (start [])))
     = [CallGetDataset ''proj.ds'',
        CallCreateDataset \<lparr>ds_id = ''proj.ds'', ds_location = Some ''US'',
          ds_description = Some ''Dataset created by CI/CD pipeline''\<rparr>]"
  using C7_dataset_ensurer [of sample_config "''proj''" "''ds''"
      "sample_world Map.empty Map.empty" sample_client "start [''proj.ds'']"]
    C7_dataset_ensurer [of sample_config "''proj''" "''ds''"
      "sample_world Map.empty Map.empty" sample_client "start []"]
  by (simp add: sample_world_def sample_config_def start_def)

text \<open>
  Claim C3 fails on the data loader. Its \<open>load_config\<close> never reads the environment:
  whatever the variables are, it loads \<open>config.yaml\<close>. With \<open>CONFIG_FILE\<close> set to
  \<open>config.prod.yaml\<close> and both files present, the transformation runner loads the
  production configuration and the data loader the default one.
\<close>

theorem C3_data_loader_ignores_CONFIG_FILE:
  "load_config_ld (w\<lparr>environ := env\<rparr>) = load_config_ld w
   \<and> fst (load_config_rt
        (sample_world [''CONFIG_FILE'' \<mapsto> ''config.prod.yaml'']
           [''scripts/../config/config.yaml'' \<mapsto> ''dev'',
            ''scripts/../config/config.prod.yaml'' \<mapsto> ''prod'']) (start []))
       = Inr (sample_config(''dataset_id'' \<mapsto> ''prod_ds''))
   \<and> load_config_ld
        (sample_world [''CONFIG_FILE'' \<mapsto> ''config.prod.yaml'']
           [''scripts/../config/config.yaml'' \<mapsto> ''dev'',
            ''scripts/../config/config.prod.yaml'' \<mapsto> ''prod''])
       = Inr sample_config"
proof (intro conjI)
  show "load_config_ld (w\<lparr>environ := env\<rparr>) = load_config_ld w"
    by (simp add: load_config_ld_def Let_def split: option.splits)
  show "fst (load_config_rt
        (sample_world [''CONFIG_FILE'' \<mapsto> ''config.prod.yaml'']
           [''scripts/../config/config.yaml'' \<mapsto> ''dev'',
            ''scripts/../config/config.prod.yaml'' \<mapsto> ''prod'']) (start []))
       = Inr (sample_config(''dataset_id'' \<mapsto> ''prod_ds''))"
    by (simp add: load_config_rt_def sample_world_def join2_def suffix_to_prefix Let_def)
  show "load_config_ld
        (sample_world [''CONFIG_FILE'' \<mapsto> ''config.prod.yaml'']
           [''scripts/../config/config.yaml'' \<mapsto> ''dev'',
            ''scripts/../config/config.prod.yaml'' \<mapsto> ''prod''])
       = Inr sample_config"
    by (simp add: load_config_ld_def sample_world_def join2_def suffix_to_prefix Let_def)
qed

text \<open>
  Claim C1. In the transformation runner an error raised while one statement of a file
  is executed is caught and logged, and every later statement is still executed; the
  runner's \<open>main\<close> returns 0 whatever the outcomes of the statements are. For a file
  that exists and a config that has the three ids: \<open>run_sql_file\<close> does not raise,
  and the queries it issues are all the statements that do not start with two dashes, in
  order, for any behaviour of the warehouse. Wherever a statement fails in the loop, its
  warning is in the output at the end of the loop and the statements after it are queried
  as if nothing had happened. With a config file that loads and a client that can be
  built, \<open>main\<close> returns 0 and the exit status is 0.
\<close>

theorem C1_continue_after_error:
  assumes "files w (path_join (script_dir w) [''..'', ''config'',
             (case environ w ''CONFIG_FILE'' of None \<Rightarrow> ''config.yaml'' | Some f \<Rightarrow> f)])
           = Some text"
    and "yaml_safe_load w text = Inr cfg"
    and "cfg ''gcp_project_id'' = Some p" and "cfg ''dataset_id'' = Some d"
    and "cfg ''table_id'' = Some t"
    and "\<forall>s'. fst (get_bigquery_client_rt w cfg s') = Inr cl"
    and "files w (path_join (script_dir w) [''..'', ''sql'', sql_filename]) = Some sql_content"
    and "substitute_parameters sql_content cfg = Inr sql"
  shows "fst (run_sql_file w cl cfg sql_filename description s) = Inr ()
       \<and> calls (snd (run_sql_file w cl cfg sql_filename description s))
           = calls s @ map CallQuery (filter (\<lambda>q. \<not> prefix ''--'' q) (split_statements sql))
       \<and> (\<forall>pre i q post e s0.
             \<not> prefix ''--'' q \<and> q \<noteq> [] \<and>
             fst (execute_sql w cl q
                    (description @ '' - Statement '' @ str_nat i @ ''/'' @ str_nat n)
                    (run_statements w cl description n pre s0)) = Inl e
             \<longrightarrow> StatementError i e
                   \<in> set (out (run_statements w cl description n (pre @ (i, q) # post) s0))
               \<and> calls (run_statements w cl description n (pre @ (i, q) # post) s0)
                   = calls (run_statements w cl description n pre s0)
                     @ CallQuery q
                     # map CallQuery (filter (\<lambda>q. \<not> prefix ''--'' q \<and> q \<noteq> []) (map snd post)))
       \<and> fst (main_rt w s) = Inr 0
       \<and> exit_status (fst (main_rt w s)) = 0"
proof (intro conjI allI impI)
  show "fst (run_sql_file w cl cfg sql_filename description s) = Inr ()"
    using run_sql_file_present [OF assms(7,8)] by simp
  show "calls (snd (run_sql_file w cl cfg sql_filename description s))
           = calls s @ map CallQuery (filter (\<lambda>q. \<not> prefix ''--'' q) (split_statements sql))"
    using run_sql_file_present [OF assms(7,8)]
    by (simp add: run_statements_calls filter_statements)
next
  fix pre i q post e s0
  assume a: "\<not> prefix ''--'' q \<and> q \<noteq> [] \<and>
             fst (execute_sql w cl q
                    (description @ '' - Statement '' @ str_nat i @ ''/'' @ str_nat n)
                    (run_statements w cl description n pre s0)) = Inl e"
  then show "StatementError i e
                   \<in> set (out (run_statements w cl description n (pre @ (i, q) # post) s0))"
    using run_statements_error_logged by blast
  show "calls (run_statements w cl description n (pre @ (i, q) # post) s0)
                   = calls (run_statements w cl description n pre s0)
                     @ CallQuery q
                     # map CallQuery (filter (\<lambda>q. \<not> prefix ''--'' q \<and> q \<noteq> []) (map snd post))"
    using a by (simp add: run_statements_calls)
next
  let ?s1 = "print [ProjectIs p, DatasetIs d]
              (print [LoadingConfigFrom
                        (case environ w ''CONFIG_FILE'' of None \<Rightarrow> ''config.yaml'' | Some f \<Rightarrow> f)]
                 (print [StartingTransformations, LoadingConfiguration] s))"
  obtain s2 where g: "get_bigquery_client_rt w cfg ?s1 = (Inr cl, s2)"
    using assms(6) [rule_format, of ?s1] by (cases "get_bigquery_client_rt w cfg ?s1") simp
  have sub: "\<exists>sql'. substitute_parameters content cfg = Inr sql'" for content
    using assms(3,4,5) by (simp add: substitute_parameters_def lookup_def)
  have "fst (run_sql_file w cl cfg ''transformations.sql'' ''Data transformations'' s2) = Inr ()"
  proof (cases "files w (path_join (script_dir w) [''..'', ''sql'', ''transformations.sql''])")
    case None
    show ?thesis unfolding run_sql_file_absent [OF None] by simp
  next
    case (Some content)
    from sub obtain sql' where sq: "substitute_parameters content cfg = Inr sql'" by blast
    show ?thesis unfolding run_sql_file_present [OF Some sq] by simp
  qed
  then obtain s3 where r: "run_sql_file w cl cfg ''transformations.sql'' ''Data transformations'' s2
      = (Inr (), s3)"
    by (cases "run_sql_file w cl cfg ''transformations.sql'' ''Data transformations'' s2") simp
  from main_rt_unfold [OF assms(1,2,3,4) g r]
  show m: "fst (main_rt w s) = Inr 0" by simp
  then show "exit_status (fst (main_rt w s)) = 0" by (simp add: exit_status_def)
qed

text \<open>
  A file of three statements whose second one fails in the sample environment: all three
  are queried and the exit status is 0.
\<close>

theorem C1_continue_after_error_witness:
  "calls (snd (run_sql_file
       (sample_world Map.empty
          [''scripts/../config/config.yaml'' \<mapsto> ''dev'',
           ''scripts/../sql/transformations.sql'' \<mapsto> ''SELECT 1; FAIL {table_id}; SELECT 2''])
       sample_client sample_config ''transformations.sql'' ''Data transformations'' (start [])))
     = [CallQuery ''SELECT 1'', CallQuery ''FAIL tbl'', CallQuery ''SELECT 2'']
   \<and> exit_status (fst (main_rt
       (sample_world Map.empty
          [''scripts/../config/config.yaml'' \<mapsto> ''dev'',
           ''scripts/../sql/transformations.sql'' \<mapsto> ''SELECT 1; FAIL {table_id}; SELECT 2''])
       (start []))) = 0"
proof -
  let ?w = "sample_world Map.empty
          [''scripts/../config/config.yaml'' \<mapsto> ''dev'',
           ''scripts/../sql/transformations.sql'' \<mapsto> ''SELECT 1; FAIL {table_id}; SELECT 2'']"
  have h1: "files ?w (path_join (script_dir ?w) [''..'', ''config'',
             (case environ ?w ''CONFIG_FILE'' of None \<Rightarrow> ''config.yaml'' | Some f \<Rightarrow> f)])
           = Some ''dev''"
    by (simp add: sample_world_def join2_def suffix_to_prefix)
  have h2: "yaml_safe_load ?w ''dev'' = Inr sample_config"
    by (simp add: sample_world_def)
  have h3: "sample_config ''gcp_project_id'' = Some ''proj''"
    and h4: "sample_config ''dataset_id'' = Some ''ds''"
    and h5: "sample_config ''table_id'' = Some ''tbl''"
    by (simp_all add: sample_config_def)
  have h6: "\<forall>s'. fst (get_bigquery_client_rt ?w sample_config s') = Inr sample_client"
    by (simp add: sample_client_ok)
  have h7: "files ?w (path_join (script_dir ?w) [''..'', ''sql'', ''transformations.sql''])
      = Some ''SELECT 1; FAIL {table_id}; SELECT 2''"
    by (simp add: sample_world_def join2_def suffix_to_prefix)
  have h8: "substitute_parameters ''SELECT 1; FAIL {table_id}; SELECT 2'' sample_config
      = Inr ''SELECT 1; FAIL tbl; SELECT 2''"
    by (simp add: substitute_parameters_def lookup_def sample_config_def)
  have sp: "split_statements ''SELECT 1; FAIL tbl; SELECT 2''
      = [''SELECT 1'', ''FAIL tbl'', ''SELECT 2'']"
    by (simp add: split_statements_def strip_def isspace_def)
  note c1 = C1_continue_after_error [OF h1 h2 h3 h4 h5 h6 h7 h8,
      where description = "''Data transformations''" and s = "start []" and n = 3]
  from c1 [THEN conjunct2, THEN conjunct1]
  have "calls (snd (run_sql_file ?w sample_client sample_config ''transformations.sql''
           ''Data transformations'' (start [])))
     = [CallQuery ''SELECT 1'', CallQuery ''FAIL tbl'', CallQuery ''SELECT 2'']"
    by (simp add: sp start_def)
  moreover from c1 [THEN conjunct2, THEN conjunct2, THEN conjunct2, THEN conjunct2]
  have "exit_status (fst (main_rt ?w (start []))) = 0" .
  ultimately show ?thesis by (rule conjI)
qed

text \<open>
  Claim C9. When the SQL file does not exist, \<open>run_sql_file\<close> prints the warning and
  returns without raising; the state changes by the two printed lines only, so nothing is
  read, substituted (the config may even lack the ids) or executed. In \<open>main\<close>, with a
  config file that loads and a client that can be built, the run goes on to the
  verification step (its heading is printed and its table lookup is issued) and returns 0.
\<close>

theorem C9_missing_sql_file:
  assumes "files w (path_join (script_dir w) [''..'', ''sql'', sql_filename]) = None"
  shows "run_sql_file w cl cfg sql_filename description s =
           (Inr (), s\<lparr>out := out s @ [Processing sql_filename,
                FileNotFound (path_join (script_dir w) [''..'', ''sql'', sql_filename])]\<rparr>)
       \<and> (sql_filename = ''transformations.sql''
          \<and> files w (path_join (script_dir w) [''..'', ''config'',
               (case environ w ''CONFIG_FILE'' of None \<Rightarrow> ''config.yaml'' | Some f \<Rightarrow> f)])
             = Some text
          \<and> yaml_safe_load w text = Inr cfg
          \<and> cfg ''gcp_project_id'' = Some p \<and> cfg ''dataset_id'' = Some d
          \<and> (\<forall>s'. fst (get_bigquery_client_rt w cfg s') = Inr cl)
          \<longrightarrow> fst (main_rt w s) = Inr 0
            \<and> FileNotFound (path_join (script_dir w) [''..'', ''sql'', sql_filename])
                \<in> set (out (snd (main_rt w s)))
            \<and> VerifyingTransformations \<in> set (out (snd (main_rt w s)))
            \<and> CallGetTable (p @ ''.'' @ d @ ''.department_summary'')
                \<in> set (calls (snd (main_rt w s))))"
proof (intro conjI impI)
  show "run_sql_file w cl cfg sql_filename description s =
           (Inr (), s\<lparr>out := out s @ [Processing sql_filename,
                FileNotFound (path_join (script_dir w) [''..'', ''sql'', sql_filename])]\<rparr>)"
    using run_sql_file_absent [OF assms] by (simp add: print_def)
next
  assume a: "sql_filename = ''transformations.sql''
          \<and> files w (path_join (script_dir w) [''..'', ''config'',
               (case environ w ''CONFIG_FILE'' of None \<Rightarrow> ''config.yaml'' | Some f \<Rightarrow> f)])
             = Some text
          \<and> yaml_safe_load w text = Inr cfg
          \<and> cfg ''gcp_project_id'' = Some p \<and> cfg ''dataset_id'' = Some d
          \<and> (\<forall>s'. fst (get_bigquery_client_rt w cfg s') = Inr cl)"
  let ?path = "path_join (script_dir w) [''..'', ''sql'', sql_filename]"
  let ?s1 = "print [ProjectIs p, DatasetIs d]
              (print [LoadingConfigFrom
                        (case environ w ''CONFIG_FILE'' of None \<Rightarrow> ''config.yaml'' | Some f \<Rightarrow> f)]
                 (print [StartingTransformations, LoadingConfiguration] s))"
  from a have f: "sql_filename = ''transformations.sql''"
    and h1: "files w (path_join (script_dir w) [''..'', ''config'',
               (case environ w ''CONFIG_FILE'' of None \<Rightarrow> ''config.yaml'' | Some f \<Rightarrow> f)])
             = Some text"
    and h2: "yaml_safe_load w text = Inr cfg"
    and h3: "cfg ''gcp_project_id'' = Some p" and h4: "cfg ''dataset_id'' = Some d"
    and h5: "\<forall>s'. fst (get_bigquery_client_rt w cfg s') = Inr cl" by simp_all
  obtain s2 where g: "get_bigquery_client_rt w cfg ?s1 = (Inr cl, s2)"
    using h5 [rule_format, of ?s1] by (cases "get_bigquery_client_rt w cfg ?s1") simp
  obtain ms cs where s2: "out s2 = out ?s1 @ ms" "calls s2 = calls ?s1 @ cs"
    using get_bigquery_client_rt_grows [of w cfg ?s1] unfolding g by auto
  let ?s3 = "print [FileNotFound ?path] (print [Processing sql_filename] s2)"
  have r: "run_sql_file w cl cfg ''transformations.sql'' ''Data transformations'' s2 = (Inr (), ?s3)"
    using run_sql_file_absent [OF assms, of cl cfg "''Data transformations''" s2] f by simp
  have m: "main_rt w s = (Inr 0, print [AllTransformationsCompleted]
               (snd (verify_transformations w cl cfg (print [WaitingForBigQuery] ?s3))))"
    by (rule main_rt_unfold [OF h1 h2 h3 h4 g r])
  obtain vms where vo: "out (snd (verify_transformations w cl cfg (print [WaitingForBigQuery] ?s3)))
      = out (print [WaitingForBigQuery] ?s3) @ VerifyingTransformations # vms"
    using verify_transformations_out [OF h3 h4] by blast
  obtain vcs where vc: "calls (snd (verify_transformations w cl cfg (print [WaitingForBigQuery] ?s3)))
      = calls (print [WaitingForBigQuery] ?s3) @ CallGetTable (p @ ''.'' @ d @ ''.department_summary'') # vcs"
    using verify_transformations_calls [OF h3 h4] by blast
  show "fst (main_rt w s) = Inr 0" using m by simp
  show "FileNotFound ?path \<in> set (out (snd (main_rt w s)))" using m vo by simp
  show "VerifyingTransformations \<in> set (out (snd (main_rt w s)))" using m vo by simp
  show "CallGetTable (p @ ''.'' @ d @ ''.department_summary'') \<in> set (calls (snd (main_rt w s)))"
    using m vc by simp
qed

text \<open>The sample environment without any SQL file.\<close>

theorem C9_missing_sql_file_witness:
  "run_sql_file (sample_world Map.empty [''scripts/../config/config.yaml'' \<mapsto> ''dev''])
       sample_client sample_config ''transformations.sql'' ''Data transformations'' (start [])
     = (Inr (), \<lparr>remote = [], out = [Processing ''transformations.sql'',
                   FileNotFound ''scripts/../sql/transformations.sql''], calls = []\<rparr>)
   \<and> fst (main_rt (sample_world Map.empty [''scripts/../config/config.yaml'' \<mapsto> ''dev''])
            (start [])) = Inr 0
   \<and> CallGetTable ''proj.ds.department_summary''
       \<in> set (calls (snd (main_rt
            (sample_world Map.empty [''scripts/../config/config.yaml'' \<mapsto> ''dev''])
            (start []))))"
proof -
  let ?w = "sample_world Map.empty [''scripts/../config/config.yaml'' \<mapsto> ''dev'']"
  have h0: "files ?w (path_join (script_dir ?w) [''..'', ''sql'', ''transformations.sql'']) = None"
    by (simp add: sample_world_def join2_def suffix_to_prefix)
  have h1: "files ?w (path_join (script_dir ?w) [''..'', ''config'',
             (case environ ?w ''CONFIG_FILE'' of None \<Rightarrow> ''config.yaml'' | Some f \<Rightarrow> f)])
           = Some ''dev''"
    by (simp add: sample_world_def join2_def suffix_to_prefix)
  have h2: "yaml_safe_load ?w ''dev'' = Inr sample_config"
    by (simp add: sample_world_def)
  have h3: "sample_config ''gcp_project_id'' = Some ''proj''"
    and h4: "sample_config ''dataset_id'' = Some ''ds''"
    by (simp_all add: sample_config_def)
  have h6: "\<forall>s'. fst (get_bigquery_client_rt ?w sample_config s') = Inr sample_client"
    by (simp add: sample_client_ok)
  from C9_missing_sql_file [OF h0, of sample_client sample_config "''Data transformations''"
      "start []" "''dev''" "''proj''" "''ds''"] h1 h2 h3 h4 h6
  show ?thesis by (simp add: start_def sample_world_def join2_def suffix_to_prefix)
qed

text \<open>
  Claim C2 fails on the code. A fragment is skipped as soon as it starts with two dashes,
  so a statement that follows a comment line inside the same fragment is discarded with
  it. For the file \<open>-- monthly totals / SELECT 1; / SELECT 2\<close> (three lines) the first
  fragment is not comment-only, yet the only query issued is \<open>SELECT 2\<close>.
\<close>

theorem C2_leading_comment_discards_statement:
  "split_statements (''-- monthly totals'' @ [CHR 0x0A] @ ''SELECT 1;'' @ [CHR 0x0A] @ ''SELECT 2'')
     = [''-- monthly totals'' @ [CHR 0x0A] @ ''SELECT 1'', ''SELECT 2'']
   \<and> \<not> spec_comment_only (''-- monthly totals'' @ [CHR 0x0A] @ ''SELECT 1'')
   \<and> calls (snd (run_sql_file
        (sample_world Map.empty
           [''scripts/../sql/transformations.sql'' \<mapsto>
              ''-- monthly totals'' @ [CHR 0x0A] @ ''SELECT 1;'' @ [CHR 0x0A] @ ''SELECT 2''])
        sample_client sample_config ''transformations.sql'' ''Data transformations'' (start [])))
     = [CallQuery ''SELECT 2'']"
proof (intro conjI)
  let ?content = "''-- monthly totals'' @ [CHR 0x0A] @ ''SELECT 1;'' @ [CHR 0x0A] @ ''SELECT 2''"
  let ?w = "sample_world Map.empty [''scripts/../sql/transformations.sql'' \<mapsto> ?content]"
  show sp: "split_statements ?content
     = [''-- monthly totals'' @ [CHR 0x0A] @ ''SELECT 1'', ''SELECT 2'']"
    by (simp add: split_statements_def strip_def isspace_def)
  show "\<not> spec_comment_only (''-- monthly totals'' @ [CHR 0x0A] @ ''SELECT 1'')"
    by (simp add: spec_comment_only_def strip_def isspace_def)
  have h7: "files ?w (path_join (script_dir ?w) [''..'', ''sql'', ''transformations.sql''])
      = Some ?content"
    by (simp add: sample_world_def join2_def suffix_to_prefix)
  have h8: "substitute_parameters ?content sample_config = Inr ?content"
    by (simp add: substitute_parameters_def lookup_def sample_config_def)
  show "calls (snd (run_sql_file ?w sample_client sample_config ''transformations.sql''
      ''Data transformations'' (start []))) = [CallQuery ''SELECT 2'']"
    unfolding run_sql_file_present [OF h7 h8]
    by (simp add: run_statements_calls start_def split_statements_def strip_def isspace_def)
qed

text \<open>
  Claim C8. The exit status of the diagnostic tool is 0 exactly when both checks pass
  (each returns \<open>True\<close>). When the credential variable is unset or empty, and when it
  is set but \<open>json.loads\<close> rejects it, the exit status is 1 and no request is issued:
  no client is constructed and no datasets are listed.
\<close>

theorem C8_diagnostic_exit_code:
  "(exit_status (fst (main_tc w s)) = 0 \<longleftrightarrow>
      fst (test_environment w (print [DiagnosticTool] s)) = Inr True \<and>
      fst (test_bigquery_connection w (snd (test_environment w (print [DiagnosticTool] s))))
        = Inr True)
   \<and> (environ w ''GCP_SERVICE_ACCOUNT_KEY'' = None
        \<or> environ w ''GCP_SERVICE_ACCOUNT_KEY'' = Some []
      \<longrightarrow> exit_status (fst (main_tc w s)) = 1 \<and> calls (snd (main_tc w s)) = calls s)
   \<and> (\<forall>key e. environ w ''GCP_SERVICE_ACCOUNT_KEY'' = Some key \<and> key \<noteq> []
        \<and> json_loads w key = Inl e
      \<longrightarrow> exit_status (fst (main_tc w s)) = 1 \<and> calls (snd (main_tc w s)) = calls s)"
proof (intro conjI allI impI)
  show "exit_status (fst (main_tc w s)) = 0 \<longleftrightarrow>
      fst (test_environment w (print [DiagnosticTool] s)) = Inr True \<and>
      fst (test_bigquery_connection w (snd (test_environment w (print [DiagnosticTool] s))))
        = Inr True"
    by (rule main_tc_exit_zero_iff)
next
  assume "environ w ''GCP_SERVICE_ACCOUNT_KEY'' = None
        \<or> environ w ''GCP_SERVICE_ACCOUNT_KEY'' = Some []"
  then have f: "fst (test_environment w (print [DiagnosticTool] s)) \<noteq> Inr True"
    using test_environment_unset [of w "print [DiagnosticTool] s"] by simp
  from main_tc_first_check_fails [OF f]
  show "exit_status (fst (main_tc w s)) = 1" and "calls (snd (main_tc w s)) = calls s"
    by simp_all
next
  fix key e
  assume "environ w ''GCP_SERVICE_ACCOUNT_KEY'' = Some key \<and> key \<noteq> []
        \<and> json_loads w key = Inl e"
  then have f: "fst (test_environment w (print [DiagnosticTool] s)) \<noteq> Inr True"
    using test_environment_invalid [of w key e "print [DiagnosticTool] s"] by simp
  from main_tc_first_check_fails [OF f]
  show "exit_status (fst (main_tc w s)) = 1" and "calls (snd (main_tc w s)) = calls s"
    by simp_all
qed

text \<open>
  The diagnostic tool in the sample environment: without the variable, with a value that
  is not JSON, and with a credential object and a config file.
\<close>

theorem C8_diagnostic_exit_code_witness:
  "exit_status (fst (main_tc (sample_world Map.empty Map.empty) (start []))) = 1
   \<and> calls (snd (main_tc (sample_world Map.empty Map.empty) (start []))) = []
   \<and> exit_status (fst (main_tc
        (sample_world [''GCP_SERVICE_ACCOUNT_KEY'' \<mapsto> ''{not json''] Map.empty) (start []))) = 1
   \<and> calls (snd (main_tc
        (sample_world [''GCP_SERVICE_ACCOUNT_KEY'' \<mapsto> ''{not json''] Map.empty) (start []))) = []
   \<and> exit_status (fst (main_tc
        (sample_world [''GCP_SERVICE_ACCOUNT_KEY'' \<mapsto> ''creds'']
           [''config/config.yaml'' \<mapsto> ''dev'']) (start []))) = 0"
proof -
  let ?w1 = "sample_world Map.empty Map.empty :: string list world"
  let ?w2 = "sample_world [''GCP_SERVICE_ACCOUNT_KEY'' \<mapsto> ''{not json''] Map.empty :: string list world"
  let ?w3 = "sample_world [''GCP_SERVICE_ACCOUNT_KEY'' \<mapsto> ''creds'']
           [''config/config.yaml'' \<mapsto> ''dev''] :: string list world"
  have a: "exit_status (fst (main_tc ?w1 (start []))) = 1 \<and> calls (snd (main_tc ?w1 (start []))) = []"
    using C8_diagnostic_exit_code [of ?w1 "start []", THEN conjunct2, THEN conjunct1]
    by (simp add: sample_world_def start_def)
  have b: "exit_status (fst (main_tc ?w2 (start []))) = 1 \<and> calls (snd (main_tc ?w2 (start []))) = []"
    using C8_diagnostic_exit_code [of ?w2 "start []", THEN conjunct2, THEN conjunct2,
        rule_format, of "''{not json''" JSONDecodeError]
    by (simp add: sample_world_def start_def)
  have c: "exit_status (fst (main_tc ?w3 (start []))) = 0"
    using C8_diagnostic_exit_code [of ?w3 "start []", THEN conjunct1]
    by (simp add: sample_world_def start_def test_environment_def truthy_env_def dict_get_def
          test_bigquery_connection_def load_config_tc_def create_client_tc_def lookup_def
          sample_config_def request_def Let_def)
  from a b c show ?thesis by simp
qed

end
